theory Spec2Isabelle
  imports Main "HOL-Library.Word"
begin

section \<open>Python values used by the WOL server\<close>

text \<open>
  A Python \<open>str\<close> is a sequence of Unicode code points, so it is modelled as a list of
  natural numbers; \<open>bytes\<close> is a list of 8-bit words. \<open>py\<close> turns an ASCII literal into
  such a string.
\<close>

type_synonym codepoint = nat
type_synonym str = "codepoint list"
type_synonym byte = "8 word"

definition py :: "string \<Rightarrow> str" where
  "py s = map of_char s"

text \<open>The exceptions the modelled code can raise.\<close>

datatype exn = ValueError | OSError | OverflowError

subsection \<open>String methods of the standard library\<close>

text \<open>\<open>s.replace(c, "")\<close> for a one-character \<open>c\<close>: every occurrence is deleted.\<close>

definition str_delete :: "codepoint \<Rightarrow> str \<Rightarrow> str" where
  "str_delete c s = filter (\<lambda>x. x \<noteq> c) s"



text \<open>
  \<open>str.upper()\<close> maps the ASCII letters a-z to A-Z and leaves every other ASCII
  character alone. Outside ASCII it follows the Unicode upper-case mapping, which may
  replace one character by several (the ligature U+FB00 becomes \<open>FF\<close>); that table is
  not part of the repository and is the parameter \<open>uc\<close>.
\<close>

definition ascii_upper :: "codepoint \<Rightarrow> codepoint" where
  "ascii_upper c = (if 97 \<le> c \<and> c \<le> 122 then c - 32 else c)"

definition str_upper :: "(codepoint \<Rightarrow> str) \<Rightarrow> str \<Rightarrow> str" where
  "str_upper uc s = concat (map (\<lambda>c. if c < 128 then [ascii_upper c] else uc c) s)"

subsection \<open>\<open>bytes.fromhex\<close>\<close>

text \<open>
  CPython reads the string left to right: runs of ASCII whitespace are skipped between
  bytes, and each byte is two hexadecimal digits looked up in the digit table
  (\<open>_PyLong_DigitValue\<close>, 37 for a character that is no digit); anything else raises
  \<open>ValueError\<close>.
\<close>

definition Py_ISSPACE :: "codepoint \<Rightarrow> bool" where
  "Py_ISSPACE c = (c = 32 \<or> (9 \<le> c \<and> c \<le> 13))"

definition PyLong_DigitValue :: "codepoint \<Rightarrow> nat" where
  "PyLong_DigitValue c =
     (if 48 \<le> c \<and> c \<le> 57 then c - 48
      else if 97 \<le> c \<and> c \<le> 122 then c - 87
      else if 65 \<le> c \<and> c \<le> 90 then c - 55
      else 37)"

definition hex_byte :: "codepoint \<Rightarrow> codepoint \<Rightarrow> byte" where
  "hex_byte a b = of_nat (16 * PyLong_DigitValue a + PyLong_DigitValue b)"

fun fromhex :: "str \<Rightarrow> exn + byte list" where
  "fromhex [] = Inr []"
| "fromhex [c] = (if Py_ISSPACE c then Inr [] else Inl ValueError)"
| "fromhex (c # d # cs) =
     (if Py_ISSPACE c then fromhex (d # cs)
      else if 16 \<le> PyLong_DigitValue c then Inl ValueError
      else if 16 \<le> PyLong_DigitValue d then Inl ValueError
      else (case fromhex cs of
              Inl e \<Rightarrow> Inl e
            | Inr bs \<Rightarrow> Inr (hex_byte c d # bs)))"

section \<open>wol.py: the packet builder and the sender\<close>

definition normalize_mac :: "str \<Rightarrow> exn + byte list" where
  "normalize_mac mac = fromhex (str_delete 45 (str_delete 58 mac))"

text \<open>
  The first two statements of \<open>send_magic_packet\<close> build the payload; they touch no
  socket and are kept as a function of their own.
\<close>

definition build_packet :: "str \<Rightarrow> exn + byte list" where
  "build_packet mac =
     (case normalize_mac mac of
        Inl e \<Rightarrow> Inl e
      | Inr mac_bytes \<Rightarrow> Inr (replicate 6 0xFF @ concat (replicate 16 mac_bytes)))"

text \<open>
  The network is observed through the list of \<open>sendto\<close> calls made so far. Creating the
  UDP socket and enabling broadcast are taken to succeed; whether a \<open>sendto\<close> raises
  \<open>OSError\<close> is decided by the environment (\<open>sendto_ok n host\<close> for the call number
  \<open>n\<close> to \<open>host\<close>), so a target may fail once and succeed later. The socket is closed
  on both paths.
\<close>

record datagram =
  dg_payload :: "byte list"
  dg_host :: str
  dg_port :: nat

definition send_magic_packet ::
  "(nat \<Rightarrow> str \<Rightarrow> bool) \<Rightarrow> str \<Rightarrow> str \<Rightarrow> nat \<Rightarrow> datagram list \<Rightarrow> (exn + unit) \<times> datagram list" where
  "send_magic_packet sendto_ok mac broadcast port net =
     (case build_packet mac of
        Inl e \<Rightarrow> (Inl e, net)
      | Inr packet \<Rightarrow>
          (if sendto_ok (length net) broadcast then Inr () else Inl OSError,
           net @ [\<lparr>dg_payload = packet, dg_host = broadcast, dg_port = port\<rparr>]))"

section \<open>schemas.py: request models\<close>

subsection \<open>The regular expression of a MAC address\<close>







subsection \<open>WakeRequest and DeviceCreate\<close>


text \<open>The field \<open>broadcast: str | list[str] | None\<close> of a wake request.\<close>

datatype broadcast_field = Absent | One str | Many "str list"

record WakeRequest =
  wr_mac :: str
  wr_broadcast :: broadcast_field





record ScheduleCreate =
  sc_device_id :: int
  sc_cron :: str
  sc_broadcasts :: "str list option"

text \<open>\<open>ApiMessage\<close>: the \<open>data\<close> dictionary is a list of keys with their values.\<close>

datatype field_value = IntV int | StrV str | ListV "str list" | ExcV exn

record ApiMessage =
  success :: bool
  message :: string
  data :: "(string \<times> field_value) list option"

section \<open>database.py: the record store\<close>

text \<open>
  The two tables are lists of rows in insertion order. The TEXT column \<open>broadcasts\<close>
  holds \<open>json.dumps\<close> of a list of strings and is only read back through \<open>json.loads\<close>,
  so the rows keep the list itself (\<open>None\<close> for NULL in \<open>schedules\<close>). Both keys are
  \<open>INTEGER PRIMARY KEY AUTOINCREMENT\<close>: a new row gets one more than the largest key the
  table ever held, which SQLite remembers in its sequence counter; keys are handed out
  from 1 upwards, and the end of the 64-bit key space is left out of the model.

  An identifier that a method passes to a statement as a parameter must fit SQLite's
  signed 64-bit INTEGER; for any other Python integer the \<open>sqlite3\<close> module raises
  \<open>OverflowError\<close> when it binds the parameter, before the statement runs, so nothing
  is changed and nothing is committed.
\<close>

record device_row =
  d_id :: int
  d_name :: str
  d_mac :: str
  d_ip :: "str option"
  d_broadcasts :: "str list"
  d_shutdown_url :: "str option"
  d_created_at :: str

record schedule_row =
  s_id :: int
  s_device_id :: int
  s_cron_expr :: str
  s_broadcasts :: "str list option"
  s_enabled :: int
  s_created_at :: str

record database =
  devices :: "device_row list"
  schedules :: "schedule_row list"
  devices_seq :: int
  schedules_seq :: int

definition next_rowid :: "int \<Rightarrow> int list \<Rightarrow> int" where
  "next_rowid seq ids = fold max ids seq + 1"

definition sqlite_integer :: "int \<Rightarrow> bool" where
  "sqlite_integer n = (- (2 ^ 63) \<le> n \<and> n < 2 ^ 63)"

definition with_parameter :: "int \<Rightarrow> 'a \<Rightarrow> exn + 'a" where
  "with_parameter n result = (if sqlite_integer n then Inr result else Inl OverflowError)"

definition Database_get_device :: "database \<Rightarrow> int \<Rightarrow> exn + device_row option" where
  "Database_get_device d device_id =
     with_parameter device_id (find (\<lambda>row. d_id row = device_id) (devices d))"


definition Database_delete_device :: "database \<Rightarrow> int \<Rightarrow> exn + nat \<times> database" where
  "Database_delete_device d device_id =
     with_parameter device_id
       (length (filter (\<lambda>row. d_id row = device_id) (devices d)),
        d\<lparr>schedules := filter (\<lambda>row. s_device_id row \<noteq> device_id) (schedules d),
          devices := filter (\<lambda>row. d_id row \<noteq> device_id) (devices d)\<rparr>)"

definition Database_add_schedule ::
  "database \<Rightarrow> int \<Rightarrow> str \<Rightarrow> str list option \<Rightarrow> str \<Rightarrow> exn + int \<times> database" where
  "Database_add_schedule d device_id cron_expr broadcasts_json created_at =
     with_parameter device_id
       (let schedule_id = next_rowid (schedules_seq d) (map s_id (schedules d));
            row = \<lparr>s_id = schedule_id, s_device_id = device_id, s_cron_expr = cron_expr,
                   s_broadcasts = broadcasts_json, s_enabled = 1, s_created_at = created_at\<rparr>
        in (schedule_id, d\<lparr>schedules := schedules d @ [row], schedules_seq := schedule_id\<rparr>))"

definition list_schedule_ids_for_device :: "database \<Rightarrow> int \<Rightarrow> exn + int list" where
  "list_schedule_ids_for_device d device_id =
     with_parameter device_id
       (map s_id (filter (\<lambda>row. s_device_id row = device_id) (schedules d)))"

definition Database_delete_schedule :: "database \<Rightarrow> int \<Rightarrow> exn + nat \<times> database" where
  "Database_delete_schedule d schedule_id =
     with_parameter schedule_id
       (length (filter (\<lambda>row. s_id row = schedule_id) (schedules d)),
        d\<lparr>schedules := filter (\<lambda>row. s_id row \<noteq> schedule_id) (schedules d)\<rparr>)"

section \<open>main.py: the application\<close>

subsection \<open>Settings, log, scheduler and the state of the process\<close>

text \<open>
  What the handlers read from outside: the configured default broadcasts, the outcome
  of each \<open>sendto\<close>, which strings \<open>CronTrigger.from_crontab\<close> accepts (the parser
  belongs to APScheduler), and the timestamp written to new rows.
\<close>

record env =
  default_broadcasts :: "str list"
  sendto_ok :: "nat \<Rightarrow> str \<Rightarrow> bool"
  crontab_ok :: "str \<Rightarrow> bool"
  utcnow :: str

datatype level = INFO | WARNING | ERROR

record log_record =
  levelname :: level
  msg :: string
  extra :: "(string \<times> field_value) list"

definition log_line :: "level \<Rightarrow> string \<Rightarrow> (string \<times> field_value) list \<Rightarrow> log_record" where
  "log_line l m e = \<lparr>levelname = l, msg = m, extra = e\<rparr>"

datatype trigger = CronTrigger str

definition from_crontab :: "env \<Rightarrow> str \<Rightarrow> exn + trigger" where
  "from_crontab e expr = (if crontab_ok e expr then Inr (CronTrigger expr) else Inl ValueError)"

text \<open>
  A job of the scheduler is the closure \<open>_job\<close> returned by \<open>schedule_job\<close>, which
  captures its three arguments, together with its trigger. The job table maps a job
  identifier (the string \<open>schedule-<id>\<close>, one for each schedule identifier) to its job.
\<close>

record closure =
  cl_schedule_id :: int
  cl_device_id :: int
  cl_broadcasts :: "str list option"

record job =
  job_func :: closure
  job_trigger :: trigger

datatype job_id = Schedule_job int

record world =
  db :: database
  jobs :: "job_id \<rightharpoonup> job"
  sendto_calls :: "datagram list"
  logged :: "log_record list"

text \<open>
  What leaves a handler in place of a reply: an \<open>HTTPException\<close> with its status code
  and detail, or any other exception, which no handler catches and the framework
  answers with status 500.
\<close>

datatype failure = HTTPException nat string "exn option" | Unhandled exn

definition emit :: "log_record \<Rightarrow> world \<Rightarrow> world" where
  "emit r w = w\<lparr>logged := logged w @ [r]\<rparr>"

subsection \<open>On-demand wake\<close>

fun parse_broadcasts :: "broadcast_field \<Rightarrow> str list \<Rightarrow> str list" where
  "parse_broadcasts Absent defaults = defaults"
| "parse_broadcasts (One raw_broadcast) defaults = [raw_broadcast]"
| "parse_broadcasts (Many raw_broadcast) defaults = filter (\<lambda>x. x \<noteq> []) raw_broadcast"

text \<open>
  The loop of \<open>wake\<close> over the targets, with the list \<open>sent\<close> built so far. The
  \<open>except\<close> branch logs and raises the HTTP error, which ends the loop.
\<close>

fun wake_loop ::
  "env \<Rightarrow> str \<Rightarrow> str list \<Rightarrow> str list \<Rightarrow> world \<Rightarrow> (failure + str list) \<times> world" where
  "wake_loop e mac [] sent w = (Inr sent, w)"
| "wake_loop e mac (broadcast # rest) sent w =
     (case send_magic_packet (sendto_ok e) mac broadcast 9 (sendto_calls w) of
        (Inr u, net) \<Rightarrow>
          wake_loop e mac rest (sent @ [broadcast])
            (emit (log_line INFO ''wake_sent'' [(''mac'', StrV mac), (''broadcast'', StrV broadcast)])
               (w\<lparr>sendto_calls := net\<rparr>))
      | (Inl exc, net) \<Rightarrow>
          (Inl (HTTPException 500 ''Error sending WOL packet: '' (Some exc)),
           emit (log_line ERROR ''wake_failed''
                   [(''mac'', StrV mac), (''broadcast'', StrV broadcast), (''error'', ExcV exc)])
             (w\<lparr>sendto_calls := net\<rparr>)))"

definition wake :: "env \<Rightarrow> WakeRequest \<Rightarrow> world \<Rightarrow> (failure + ApiMessage) \<times> world" where
  "wake e payload w =
     (let broadcasts = parse_broadcasts (wr_broadcast payload) (default_broadcasts e)
      in case wake_loop e (wr_mac payload) broadcasts [] w of
           (Inl err, w') \<Rightarrow> (Inl err, w')
         | (Inr sent, w') \<Rightarrow>
             (Inr \<lparr>success = True, message = ''Magic packet sent'',
                   data = Some [(''mac'', StrV (wr_mac payload)), (''broadcasts'', ListV sent)]\<rparr>,
              w'))"

subsection \<open>Scheduled wake\<close>

definition schedule_job :: "int \<Rightarrow> int \<Rightarrow> str list option \<Rightarrow> closure" where
  "schedule_job schedule_id device_id broadcasts =
     \<lparr>cl_schedule_id = schedule_id, cl_device_id = device_id, cl_broadcasts = broadcasts\<rparr>"

text \<open>
  \<open>broadcasts if broadcasts else json.loads(device["broadcasts"])\<close>: \<open>None\<close> and the
  empty list are both false in Python.
\<close>

definition selected :: "str list option \<Rightarrow> device_row \<Rightarrow> str list" where
  "selected broadcasts device =
     (case broadcasts of
        None \<Rightarrow> d_broadcasts device
      | Some bs \<Rightarrow> if bs \<noteq> [] then bs else d_broadcasts device)"

text \<open>The loop of \<open>_job\<close>: the \<open>except\<close> branch only logs, and the loop goes on.\<close>

fun job_loop :: "env \<Rightarrow> closure \<Rightarrow> str \<Rightarrow> str list \<Rightarrow> world \<Rightarrow> world" where
  "job_loop e c mac [] w = w"
| "job_loop e c mac (broadcast # rest) w =
     (case send_magic_packet (sendto_ok e) mac broadcast 9 (sendto_calls w) of
        (Inr u, net) \<Rightarrow>
          job_loop e c mac rest
            (emit (log_line INFO ''scheduled_wake_sent''
                     [(''schedule_id'', IntV (cl_schedule_id c)), (''device_id'', IntV (cl_device_id c)),
                      (''broadcast'', StrV broadcast)])
               (w\<lparr>sendto_calls := net\<rparr>))
      | (Inl exc, net) \<Rightarrow>
          job_loop e c mac rest
            (emit (log_line ERROR ''scheduled_wake_failed''
                     [(''schedule_id'', IntV (cl_schedule_id c)), (''device_id'', IntV (cl_device_id c)),
                      (''broadcast'', StrV broadcast), (''error'', ExcV exc)])
               (w\<lparr>sendto_calls := net\<rparr>)))"

text \<open>
  The body of \<open>_job\<close>, run by the scheduler at each fire of the job. Its result says
  whether an exception left the function (\<open>Inl\<close>) or it returned (\<open>Inr\<close>); the device
  lookup stands outside the \<open>try\<close>, so an exception of the store leaves the function.
\<close>

definition run_job :: "env \<Rightarrow> closure \<Rightarrow> world \<Rightarrow> (exn + unit) \<times> world" where
  "run_job e c w =
     (case Database_get_device (db w) (cl_device_id c) of
        Inl exc \<Rightarrow> (Inl exc, w)
      | Inr None \<Rightarrow>
          (Inr (),
           emit (log_line WARNING ''schedule_device_not_found''
                   [(''schedule_id'', IntV (cl_schedule_id c)), (''device_id'', IntV (cl_device_id c))]) w)
      | Inr (Some device) \<Rightarrow>
          (Inr (), job_loop e c (d_mac device) (selected (cl_broadcasts c) device) w))"

subsection \<open>Devices and schedules\<close>


text \<open>\<open>if scheduler.get_job(job_id): scheduler.remove_job(job_id)\<close>, for each identifier.\<close>

fun remove_jobs :: "int list \<Rightarrow> (job_id \<rightharpoonup> job) \<Rightarrow> (job_id \<rightharpoonup> job)" where
  "remove_jobs [] table = table"
| "remove_jobs (schedule_id # rest) table =
     remove_jobs rest
       (if table (Schedule_job schedule_id) \<noteq> None
        then table(Schedule_job schedule_id := None) else table)"

definition delete_device :: "env \<Rightarrow> int \<Rightarrow> world \<Rightarrow> (failure + ApiMessage) \<times> world" where
  "delete_device e device_id w =
     (case list_schedule_ids_for_device (db w) device_id of
        Inl exc \<Rightarrow> (Inl (Unhandled exc), w)
      | Inr schedule_ids \<Rightarrow>
          (case Database_delete_device (db w) device_id of
             Inl exc \<Rightarrow> (Inl (Unhandled exc), w)
           | Inr (deleted, d) \<Rightarrow>
               if deleted = 0
               then (Inl (HTTPException 404 ''Device not found'' None), w\<lparr>db := d\<rparr>)
               else (Inr \<lparr>success = True, message = ''Device deleted'', data = None\<rparr>,
                     emit (log_line INFO ''device_deleted'' [(''device_id'', IntV device_id)])
                       (w\<lparr>db := d, jobs := remove_jobs schedule_ids (jobs w)\<rparr>))))"

definition add_schedule :: "env \<Rightarrow> ScheduleCreate \<Rightarrow> world \<Rightarrow> (failure + ApiMessage) \<times> world" where
  "add_schedule e payload w =
     (case Database_get_device (db w) (sc_device_id payload) of
        Inl exc \<Rightarrow> (Inl (Unhandled exc), w)
      | Inr None \<Rightarrow> (Inl (HTTPException 404 ''Device not found'' None), w)
      | Inr (Some device) \<Rightarrow>
          (case from_crontab e (sc_cron payload) of
             Inl exc \<Rightarrow> (Inl (HTTPException 400 ''Invalid cron expression: '' (Some exc)), w)
           | Inr trigger \<Rightarrow>
               (let created_at = utcnow e;
                    broadcasts_json =
                      (case sc_broadcasts payload of
                         None \<Rightarrow> None
                       | Some bs \<Rightarrow> if bs \<noteq> [] then Some bs else None)
                in case Database_add_schedule (db w) (sc_device_id payload) (sc_cron payload)
                          broadcasts_json created_at of
                     Inl exc \<Rightarrow> (Inl (Unhandled exc), w)
                   | Inr (schedule_id, d) \<Rightarrow>
                       (let table = (jobs w)(Schedule_job schedule_id \<mapsto>
                              \<lparr>job_func = schedule_job schedule_id (sc_device_id payload)
                                            (sc_broadcasts payload),
                               job_trigger = trigger\<rparr>)
                        in (Inr \<lparr>success = True, message = ''Schedule added'',
                                 data = Some [(''id'', IntV schedule_id)]\<rparr>,
                            emit (log_line INFO ''schedule_created''
                                    [(''schedule_id'', IntV schedule_id),
                                     (''device_id'', IntV (sc_device_id payload))])
                              (w\<lparr>db := d, jobs := table\<rparr>))))))"

definition delete_schedule :: "env \<Rightarrow> int \<Rightarrow> world \<Rightarrow> (failure + ApiMessage) \<times> world" where
  "delete_schedule e schedule_id w =
     (case Database_delete_schedule (db w) schedule_id of
        Inl exc \<Rightarrow> (Inl (Unhandled exc), w)
      | Inr (deleted, d) \<Rightarrow>
          if deleted = 0
          then (Inl (HTTPException 404 ''Schedule not found'' None), w\<lparr>db := d\<rparr>)
          else (Inr \<lparr>success = True, message = ''Schedule deleted'', data = None\<rparr>,
                emit (log_line INFO ''schedule_deleted'' [(''schedule_id'', IntV schedule_id)])
                  (w\<lparr>db := d,
                     jobs := (if jobs w (Schedule_job schedule_id) \<noteq> None
                              then (jobs w)(Schedule_job schedule_id := None) else jobs w)\<rparr>)))"

section \<open>The canonical form of a MAC address\<close>

text \<open>
  The specification calls a MAC address canonical when it is six hexadecimal byte pairs
  separated by colons: seventeen characters, a colon at every third position and a
  hexadecimal digit everywhere else.
\<close>

definition is_hex_digit :: "codepoint \<Rightarrow> bool" where
  "is_hex_digit c = ((48 \<le> c \<and> c \<le> 57) \<or> (65 \<le> c \<and> c \<le> 70) \<or> (97 \<le> c \<and> c \<le> 102))"

definition mac_format :: "str \<Rightarrow> bool" where
  "mac_format s =
     (length s = 17 \<and>
      list_all (\<lambda>i. if i mod 3 = 2 then s ! i = 58 else is_hex_digit (s ! i)) [0..<17])"


text \<open>
  The value of a hexadecimal digit: 0 to 9 for the digits, 10 to 15 for the letters A to
  F in either case.
\<close>

definition hex_digit_value :: "codepoint \<Rightarrow> nat" where
  "hex_digit_value c =
     (if 48 \<le> c \<and> c \<le> 57 then c - 48
      else if 65 \<le> c \<and> c \<le> 70 then 10 + (c - 65)
      else if 97 \<le> c \<and> c \<le> 102 then 10 + (c - 97)
      else 0)"






text \<open>The datagram that carries a wake payload to a broadcast target on the default port 9.\<close>

definition wake_datagram :: "byte list \<Rightarrow> str \<Rightarrow> datagram" where
  "wake_datagram packet broadcast = \<lparr>dg_payload = packet, dg_host = broadcast, dg_port = 9\<rparr>"

text \<open>
  The record a fire logs for one target: \<open>scheduled_wake_sent\<close> when the send returned,
  \<open>scheduled_wake_failed\<close> with the exception when it raised.
\<close>

definition fire_record :: "closure \<Rightarrow> str \<Rightarrow> exn option \<Rightarrow> log_record" where
  "fire_record c broadcast outcome =
     (case outcome of
        None \<Rightarrow>
          log_line INFO ''scheduled_wake_sent''
            [(''schedule_id'', IntV (cl_schedule_id c)), (''device_id'', IntV (cl_device_id c)),
             (''broadcast'', StrV broadcast)]
      | Some exc \<Rightarrow>
          log_line ERROR ''scheduled_wake_failed''
            [(''schedule_id'', IntV (cl_schedule_id c)), (''device_id'', IntV (cl_device_id c)),
             (''broadcast'', StrV broadcast), (''error'', ExcV exc)])"

section \<open>A concrete installation\<close>

text \<open>
  An environment in which every \<open>sendto\<close> to 10.0.0.255 fails and every other one
  succeeds, an empty store with no job, and the MAC address of the specification's
  examples with its payload.
\<close>

definition env0 :: env where
  "env0 = \<lparr>default_broadcasts = [py ''255.255.255.255''],
           sendto_ok = (\<lambda>n host. host \<noteq> py ''10.0.0.255''),
           crontab_ok = (\<lambda>expr. expr = py ''0 7 * * 1-5''),
           utcnow = py ''2024-01-01T00:00:00+00:00''\<rparr>"

definition world0 :: world where
  "world0 = \<lparr>db = \<lparr>devices = [], schedules = [], devices_seq = 0, schedules_seq = 0\<rparr>,
             jobs = Map.empty, sendto_calls = [], logged = []\<rparr>"

definition mac0 :: str where
  "mac0 = py ''AA:BB:CC:DD:EE:FF''"

definition packet0 :: "byte list" where
  "packet0 = replicate 6 0xFF @ concat (replicate 16 [0xAA, 0xBB, 0xCC, 0xDD, 0xEE, 0xFF])"


text \<open>A device with two broadcast targets, and a store that holds it.\<close>

definition device1 :: device_row where
  "device1 = \<lparr>d_id = 1, d_name = py ''nas'', d_mac = mac0, d_ip = None,
               d_broadcasts = [py ''10.0.0.255'', py ''10.0.1.255''], d_shutdown_url = None,
               d_created_at = py ''2024-01-01T00:00:00+00:00''\<rparr>"

definition world1 :: world where
  "world1 = world0\<lparr>db := \<lparr>devices = [device1], schedules = [], devices_seq = 1, schedules_seq = 0\<rparr>\<rparr>"

text \<open>
  The same device with another broadcast list, a request for a schedule without an
  override and the state after \<open>add_schedule\<close> has served it, then a second schedule
  with an override and the state in which both are armed.
\<close>

definition device2 :: device_row where
  "device2 = device1\<lparr>d_broadcasts := [py ''10.0.2.255'']\<rparr>"

definition world2 :: world where
  "world2 = world1\<lparr>db := (db world1)\<lparr>devices := [device2]\<rparr>\<rparr>"

definition payload1 :: ScheduleCreate where
  "payload1 = \<lparr>sc_device_id = 1, sc_cron = py ''0 7 * * 1-5'', sc_broadcasts = None\<rparr>"

definition schedule1 :: schedule_row where
  "schedule1 = \<lparr>s_id = 1, s_device_id = 1, s_cron_expr = py ''0 7 * * 1-5'', s_broadcasts = None,
                 s_enabled = 1, s_created_at = py ''2024-01-01T00:00:00+00:00''\<rparr>"

definition job1 :: job where
  "job1 = \<lparr>job_func = schedule_job 1 1 None, job_trigger = CronTrigger (py ''0 7 * * 1-5'')\<rparr>"

definition world1s :: world where
  "world1s = world1\<lparr>db := (db world1)\<lparr>schedules := [schedule1], schedules_seq := 1\<rparr>,
                     jobs := [Schedule_job 1 \<mapsto> job1],
                     logged := [log_line INFO ''schedule_created''
                                  [(''schedule_id'', IntV 1), (''device_id'', IntV 1)]]\<rparr>"

definition reply1 :: ApiMessage where
  "reply1 = \<lparr>success = True, message = ''Schedule added'', data = Some [(''id'', IntV 1)]\<rparr>"

definition payload2 :: ScheduleCreate where
  "payload2 = \<lparr>sc_device_id = 1, sc_cron = py ''0 7 * * 1-5'', sc_broadcasts = Some [py ''10.0.2.255'']\<rparr>"

definition schedule2 :: schedule_row where
  "schedule2 = \<lparr>s_id = 2, s_device_id = 1, s_cron_expr = py ''0 7 * * 1-5'',
                 s_broadcasts = Some [py ''10.0.2.255''],
                 s_enabled = 1, s_created_at = py ''2024-01-01T00:00:00+00:00''\<rparr>"

definition job2 :: job where
  "job2 = \<lparr>job_func = schedule_job 2 1 (Some [py ''10.0.2.255'']),
            job_trigger = CronTrigger (py ''0 7 * * 1-5'')\<rparr>"

definition world3 :: world where
  "world3 = world1\<lparr>db := (db world1)\<lparr>schedules := [schedule1, schedule2], schedules_seq := 2\<rparr>,
                    jobs := [Schedule_job 1 \<mapsto> job1, Schedule_job 2 \<mapsto> job2],
                    logged := [log_line INFO ''schedule_created''
                                 [(''schedule_id'', IntV 1), (''device_id'', IntV 1)],
                               log_line INFO ''schedule_created''
                                 [(''schedule_id'', IntV 2), (''device_id'', IntV 1)]]\<rparr>"

section \<open>The packet builder\<close>

lemma upt_17: "[0..<17] = [0,1,2,3,4,5,6,7,8,9,10,11,12,13,14,15,16]"
  by (simp add: upt_rec)

lemma upt_6: "[0..<6] = [0,1,2,3,4,5::nat]"
  by (simp add: upt_rec)

lemma length_17E:
  assumes "length s = 17"
  obtains a0 a1 a2 a3 a4 a5 a6 a7 a8 a9 a10 a11 a12 a13 a14 a15 a16
  where "s = [a0,a1,a2,a3,a4,a5,a6,a7,a8,a9,a10,a11,a12,a13,a14,a15,a16]"
proof -
  have "s = map ((!) s) [0..<17]"
    using map_nth[of s] assms by simp
  then have "s = [s!0,s!1,s!2,s!3,s!4,s!5,s!6,s!7,s!8,s!9,s!10,s!11,s!12,s!13,s!14,s!15,s!16]"
    unfolding upt_17 list.map .
  then show ?thesis by (rule that)
qed

lemma mac_formatE:
  assumes "mac_format s"
  obtains a1 a2 b1 b2 c1 c2 d1 d2 e1 e2 f1 f2 where
    "s = [a1,a2,58,b1,b2,58,c1,c2,58,d1,d2,58,e1,e2,58,f1,f2]"
    "is_hex_digit a1" "is_hex_digit a2" "is_hex_digit b1" "is_hex_digit b2"
    "is_hex_digit c1" "is_hex_digit c2" "is_hex_digit d1" "is_hex_digit d2"
    "is_hex_digit e1" "is_hex_digit e2" "is_hex_digit f1" "is_hex_digit f2"
proof -
  from assms have len: "length s = 17"
    by (simp add: mac_format_def)
  from assms have all: "list_all (\<lambda>i. if i mod 3 = 2 then s ! i = 58 else is_hex_digit (s ! i)) [0..<17]"
    by (simp add: mac_format_def)
  show ?thesis
  proof (rule length_17E[OF len], goal_cases)
    case (1 a0 a1 a2 a3 a4 a5 a6 a7 a8 a9 a10 a11 a12 a13 a14 a15 a16)
    have "a2 = 58 \<and> a5 = 58 \<and> a8 = 58 \<and> a11 = 58 \<and> a14 = 58 \<and>
       is_hex_digit a0 \<and> is_hex_digit a1 \<and> is_hex_digit a3 \<and> is_hex_digit a4 \<and>
       is_hex_digit a6 \<and> is_hex_digit a7 \<and> is_hex_digit a9 \<and> is_hex_digit a10 \<and>
       is_hex_digit a12 \<and> is_hex_digit a13 \<and> is_hex_digit a15 \<and> is_hex_digit a16"
      using all unfolding 1 upt_17 by simp
    then show ?case
      using 1 by (intro that[of a0 a1 a3 a4 a6 a7 a9 a10 a12 a13 a15 a16]) simp_all
  qed
qed

lemma hex_digit_facts:
  assumes "is_hex_digit c"
  shows "c \<noteq> 58" "c \<noteq> 45" "\<not> Py_ISSPACE c" "\<not> 16 \<le> PyLong_DigitValue c"
  using assms by (auto simp: is_hex_digit_def Py_ISSPACE_def PyLong_DigitValue_def)

lemma str_delete_simps:
  "str_delete c [] = []"
  "str_delete c (x # xs) = (if x = c then str_delete c xs else x # str_delete c xs)"
  by (simp_all add: str_delete_def)

lemma fromhex_pair:
  "is_hex_digit a \<Longrightarrow> is_hex_digit b \<Longrightarrow>
   fromhex (a # b # cs) = (case fromhex cs of Inl e \<Rightarrow> Inl e | Inr bs \<Rightarrow> Inr (hex_byte a b # bs))"
  by (simp add: hex_digit_facts)

lemma normalize_mac_explicit:
  assumes h: "is_hex_digit a1" "is_hex_digit a2" "is_hex_digit b1" "is_hex_digit b2"
    "is_hex_digit c1" "is_hex_digit c2" "is_hex_digit d1" "is_hex_digit d2"
    "is_hex_digit e1" "is_hex_digit e2" "is_hex_digit f1" "is_hex_digit f2"
  shows "normalize_mac [a1,a2,58,b1,b2,58,c1,c2,58,d1,d2,58,e1,e2,58,f1,f2] =
      Inr [hex_byte a1 a2, hex_byte b1 b2, hex_byte c1 c2, hex_byte d1 d2, hex_byte e1 e2, hex_byte f1 f2]"
proof -
  have del1: "str_delete 58 [a1,a2,58,b1,b2,58,c1,c2,58,d1,d2,58,e1,e2,58,f1,f2] = [a1,a2,b1,b2,c1,c2,d1,d2,e1,e2,f1,f2]"
    by (simp add: str_delete_simps h[THEN hex_digit_facts(1)])
  have del2: "str_delete 45 [a1,a2,b1,b2,c1,c2,d1,d2,e1,e2,f1,f2] = [a1,a2,b1,b2,c1,c2,d1,d2,e1,e2,f1,f2]"
    by (simp add: str_delete_simps h[THEN hex_digit_facts(2)])
  have f: "fromhex [a1,a2,b1,b2,c1,c2,d1,d2,e1,e2,f1,f2] =
      Inr [hex_byte a1 a2, hex_byte b1 b2, hex_byte c1 c2, hex_byte d1 d2, hex_byte e1 e2, hex_byte f1 f2]"
    by (simp only: fromhex_pair h fromhex.simps(1) sum.case)
  show ?thesis
    by (simp only: normalize_mac_def del1 del2 f)
qed

lemma normalize_mac_canonical:
  assumes "mac_format mac"
  shows "normalize_mac mac = Inr (map (\<lambda>k. hex_byte (mac ! (3 * k)) (mac ! (3 * k + 1))) [0..<6])"
proof (rule mac_formatE[OF assms], goal_cases)
  case (1 a1 a2 b1 b2 c1 c2 d1 d2 e1 e2 f1 f2)
  have r: "map (\<lambda>k. hex_byte (mac ! (3 * k)) (mac ! (3 * k + 1))) [0..<6] =
      [hex_byte a1 a2, hex_byte b1 b2, hex_byte c1 c2, hex_byte d1 d2, hex_byte e1 e2, hex_byte f1 f2]"
    unfolding 1(1) upt_6 by simp
  show ?case
    unfolding r unfolding 1(1) using 1(2-) by (rule normalize_mac_explicit)
qed

lemma take_drop_concat_replicate:
  assumes "length xs = m" and "k < n"
  shows "take m (drop (m * k) (concat (replicate n xs))) = xs"
  using assms(2)
proof (induction k arbitrary: n)
  case 0
  then obtain n' where "n = Suc n'" by (cases n) auto
  then show ?case using assms(1) by simp
next
  case (Suc k)
  then obtain n' where n: "n = Suc n'" and "k < n'" by (cases n) auto
  have "drop (m * Suc k) (concat (replicate n xs)) = drop (m * k) (concat (replicate n' xs))"
    unfolding n using assms(1) by simp
  then show ?case using Suc.IH[OF \<open>k < n'\<close>] by simp
qed

lemma hex_digit_value_less: "hex_digit_value c < 16"
  by (auto simp: hex_digit_value_def)

lemma PyLong_DigitValue_hex:
  "is_hex_digit c \<Longrightarrow> PyLong_DigitValue c = hex_digit_value c"
  by (auto simp: is_hex_digit_def PyLong_DigitValue_def hex_digit_value_def)

lemma unat_hex_byte:
  assumes "is_hex_digit a" and "is_hex_digit b"
  shows "unat (hex_byte a b) = 16 * hex_digit_value a + hex_digit_value b"
proof -
  have "16 * hex_digit_value a + hex_digit_value b < 256"
    using hex_digit_value_less[of a] hex_digit_value_less[of b] by simp
  then have "unat (of_nat (16 * hex_digit_value a + hex_digit_value b) :: byte) =
      16 * hex_digit_value a + hex_digit_value b"
    by (intro of_nat_inverse[OF refl]) simp
  then show ?thesis
    by (simp only: hex_byte_def PyLong_DigitValue_hex[OF assms(1)] PyLong_DigitValue_hex[OF assms(2)])
qed

lemma mac_format_nth:
  assumes "mac_format mac" and "k < 6"
  shows "is_hex_digit (mac ! (3 * k))" and "is_hex_digit (mac ! (3 * k + 1))"
proof -
  from assms(1) have at: "\<And>i. i < 17 \<Longrightarrow> (if i mod 3 = 2 then mac ! i = 58 else is_hex_digit (mac ! i))"
    by (auto simp: mac_format_def list_all_iff)
  from assms(2) have "3 * k < 17" "3 * k mod 3 \<noteq> 2" "3 * k + 1 < 17" "(3 * k + 1) mod 3 \<noteq> 2"
    by simp_all
  then show "is_hex_digit (mac ! (3 * k))" and "is_hex_digit (mac ! (3 * k + 1))"
    using at[of "3 * k"] at[of "3 * k + 1"] by simp_all
qed

text \<open>
  C3: for every MAC address in canonical form the builder returns a payload of exactly
  102 bytes; its first six bytes are 0xFF and each of the sixteen six-byte blocks that
  follow (bytes 6..12, 12..18, ..., 96..102) is the six raw bytes of the MAC: byte \<open>k\<close>
  has the value sixteen times the first digit of the pair \<open>k\<close> plus its second digit.
  The builder is a function of the MAC alone, so the same MAC always gives the same
  bytes.
\<close>

theorem magic_packet_layout:
  assumes "mac_format mac"
  shows "\<exists>mac_bytes packet.
           map unat mac_bytes =
             map (\<lambda>k. 16 * hex_digit_value (mac ! (3 * k)) + hex_digit_value (mac ! (3 * k + 1)))
               [0..<6]
         \<and> normalize_mac mac = Inr mac_bytes
         \<and> build_packet mac = Inr packet
         \<and> packet = replicate 6 0xFF @ concat (replicate 16 mac_bytes)
         \<and> length packet = 102
         \<and> take 6 packet = replicate 6 0xFF
         \<and> (\<forall>k<16. take 6 (drop (6 + 6 * k) packet) = mac_bytes)"
proof -
  define mac_bytes where "mac_bytes = map (\<lambda>k. hex_byte (mac ! (3 * k)) (mac ! (3 * k + 1))) [0..<6]"
  define packet where "packet = replicate 6 (0xFF::byte) @ concat (replicate 16 mac_bytes)"
  have byte: "unat (hex_byte (mac ! (3 * k)) (mac ! (3 * k + 1))) =
      16 * hex_digit_value (mac ! (3 * k)) + hex_digit_value (mac ! (3 * k + 1))"
    if "k \<in> set [0..<6]" for k
  proof -
    from that have "k < 6" by simp
    from mac_format_nth[OF assms this] show ?thesis by (rule unat_hex_byte)
  qed
  have "map unat mac_bytes = map (\<lambda>k. unat (hex_byte (mac ! (3 * k)) (mac ! (3 * k + 1)))) [0..<6]"
    unfolding mac_bytes_def map_map comp_def ..
  also have "\<dots> =
      map (\<lambda>k. 16 * hex_digit_value (mac ! (3 * k)) + hex_digit_value (mac ! (3 * k + 1))) [0..<6]"
    using byte by (rule map_cong[OF refl])
  finally have v: "map unat mac_bytes =
      map (\<lambda>k. 16 * hex_digit_value (mac ! (3 * k)) + hex_digit_value (mac ! (3 * k + 1))) [0..<6]" .
  have n: "normalize_mac mac = Inr mac_bytes"
    unfolding mac_bytes_def using assms by (rule normalize_mac_canonical)
  have len: "length mac_bytes = 6"
    by (simp add: mac_bytes_def)
  have b: "build_packet mac = Inr packet"
    by (simp add: build_packet_def n packet_def)
  have l: "length packet = 102"
    by (simp add: packet_def length_concat sum_list_replicate len)
  have h: "take 6 packet = replicate 6 0xFF"
    by (simp add: packet_def)
  have c: "take 6 (drop (6 + 6 * k) packet) = mac_bytes" if "k < 16" for k
    using take_drop_concat_replicate[OF len that] by (simp add: packet_def)
  from v n b l h c packet_def show ?thesis
    by blast
qed

theorem magic_packet_layout_witness:
  "mac_format (py ''01:23:45:67:89:ab'')
   \<and> (\<exists>mac_bytes packet.
           map unat mac_bytes = [0x01, 0x23, 0x45, 0x67, 0x89, 0xAB]
         \<and> normalize_mac (py ''01:23:45:67:89:ab'') = Inr mac_bytes
         \<and> build_packet (py ''01:23:45:67:89:ab'') = Inr packet
         \<and> packet = replicate 6 0xFF @ concat (replicate 16 mac_bytes)
         \<and> length packet = 102
         \<and> take 6 packet = replicate 6 0xFF
         \<and> (\<forall>k<16. take 6 (drop (6 + 6 * k) packet) = mac_bytes))
   \<and> build_packet (py ''01:23:45:67:89:ab'') =
       Inr (replicate 6 0xFF @ concat (replicate 16 [0x01, 0x23, 0x45, 0x67, 0x89, 0xAB]))"
proof -
  have h: "mac_format (py ''01:23:45:67:89:ab'')"
    by (simp add: mac_format_def py_def is_hex_digit_def upt_17)
  have vals: "map (\<lambda>k. 16 * hex_digit_value (py ''01:23:45:67:89:ab'' ! (3 * k))
                           + hex_digit_value (py ''01:23:45:67:89:ab'' ! (3 * k + 1))) [0..<6]
                 = [0x01, 0x23, 0x45, 0x67, 0x89, 0xAB]"
    by (simp add: upt_6 py_def hex_digit_value_def)
  have direct: "build_packet (py ''01:23:45:67:89:ab'') =
       Inr (replicate 6 0xFF @ concat (replicate 16 [0x01, 0x23, 0x45, 0x67, 0x89, 0xAB]))"
    by (simp add: build_packet_def normalize_mac_def py_def str_delete_def
        Py_ISSPACE_def PyLong_DigitValue_def hex_byte_def)
  from h magic_packet_layout[OF h, unfolded vals] direct show ?thesis
    by - (intro conjI, assumption+)
qed

lemma build_packet_mac0: "build_packet mac0 = Inr packet0"
  by (simp add: mac0_def packet0_def build_packet_def normalize_mac_def py_def str_delete_def
      Py_ISSPACE_def PyLong_DigitValue_def hex_byte_def)

section \<open>On-demand wake\<close>

lemma send_magic_packet_built:
  assumes "build_packet mac = Inr packet"
  shows "send_magic_packet ok mac broadcast 9 net =
           (if ok (length net) broadcast then Inr () else Inl OSError,
            net @ [wake_datagram packet broadcast])"
  using assms by (simp add: send_magic_packet_def wake_datagram_def)

lemma send_magic_packet_not_built:
  assumes "build_packet mac = Inl exc"
  shows "send_magic_packet ok mac broadcast port net = (Inl exc, net)"
  using assms by (simp add: send_magic_packet_def)

lemma wake_loop_all_sent:
  assumes "build_packet mac = Inr packet"
    and "\<forall>i<length bs. sendto_ok e (length (sendto_calls w) + i) (bs ! i)"
  shows "wake_loop e mac bs sent w =
           (Inr (sent @ bs),
            w\<lparr>sendto_calls := sendto_calls w @ map (wake_datagram packet) bs,
              logged := logged w @
                map (\<lambda>b. log_line INFO ''wake_sent'' [(''mac'', StrV mac), (''broadcast'', StrV b)]) bs\<rparr>)"
  using assms(2)
proof (induction bs arbitrary: sent w)
  case Nil
  then show ?case by simp
next
  case (Cons b bs)
  let ?w = "emit (log_line INFO ''wake_sent'' [(''mac'', StrV mac), (''broadcast'', StrV b)])
              (w\<lparr>sendto_calls := sendto_calls w @ [wake_datagram packet b]\<rparr>)"
  from Cons.prems have ok0: "sendto_ok e (length (sendto_calls w)) b"
    by force
  have rest: "\<forall>i<length bs. sendto_ok e (length (sendto_calls ?w) + i) (bs ! i)"
  proof (intro allI impI)
    fix i assume "i < length bs"
    then have "sendto_ok e (length (sendto_calls w) + Suc i) ((b # bs) ! Suc i)"
      using Cons.prems by (metis Suc_less_eq length_Cons)
    then show "sendto_ok e (length (sendto_calls ?w) + i) (bs ! i)"
      by (simp add: emit_def)
  qed
  have step: "wake_loop e mac (b # bs) sent w = wake_loop e mac bs (sent @ [b]) ?w"
    by (simp add: send_magic_packet_built[OF assms(1)] ok0)
  show ?case
    unfolding step Cons.IH[OF rest] by (simp add: emit_def)
qed

lemma wake_loop_first_failure:
  assumes "build_packet mac = Inr packet"
    and "k < length bs"
    and "\<forall>i<k. sendto_ok e (length (sendto_calls w) + i) (bs ! i)"
    and "\<not> sendto_ok e (length (sendto_calls w) + k) (bs ! k)"
  shows "wake_loop e mac bs sent w =
           (Inl (HTTPException 500 ''Error sending WOL packet: '' (Some OSError)),
            w\<lparr>sendto_calls := sendto_calls w @ map (wake_datagram packet) (take (Suc k) bs),
              logged := logged w @
                map (\<lambda>b. log_line INFO ''wake_sent'' [(''mac'', StrV mac), (''broadcast'', StrV b)]) (take k bs)
                @ [log_line ERROR ''wake_failed''
                     [(''mac'', StrV mac), (''broadcast'', StrV (bs ! k)), (''error'', ExcV OSError)]]\<rparr>)"
  using assms(2-)
proof (induction bs arbitrary: sent w k)
  case Nil
  then show ?case by simp
next
  case (Cons b bs)
  show ?case
  proof (cases k)
    case 0
    with Cons.prems have "\<not> sendto_ok e (length (sendto_calls w)) b"
      by simp
    then show ?thesis
      using 0 by (simp add: send_magic_packet_built[OF assms(1)] emit_def)
  next
    case (Suc j)
    let ?w = "emit (log_line INFO ''wake_sent'' [(''mac'', StrV mac), (''broadcast'', StrV b)])
                (w\<lparr>sendto_calls := sendto_calls w @ [wake_datagram packet b]\<rparr>)"
    from Cons.prems Suc have ok0: "sendto_ok e (length (sendto_calls w)) b"
      by force
    have j: "j < length bs"
      using Cons.prems Suc by simp
    have before: "\<forall>i<j. sendto_ok e (length (sendto_calls ?w) + i) (bs ! i)"
    proof (intro allI impI)
      fix i assume "i < j"
      then have "sendto_ok e (length (sendto_calls w) + Suc i) ((b # bs) ! Suc i)"
        using Cons.prems(2) Suc by (metis Suc_less_eq)
      then show "sendto_ok e (length (sendto_calls ?w) + i) (bs ! i)"
        by (simp add: emit_def)
    qed
    have at: "\<not> sendto_ok e (length (sendto_calls ?w) + j) (bs ! j)"
      using Cons.prems(3) Suc by (simp add: emit_def)
    have step: "wake_loop e mac (b # bs) sent w = wake_loop e mac bs (sent @ [b]) ?w"
      by (simp add: send_magic_packet_built[OF assms(1)] ok0)
    show ?thesis
      unfolding step Cons.IH[OF j before at] using Suc by (simp add: emit_def)
  qed
qed

lemma wake_all_sent:
  assumes "build_packet (wr_mac payload) = Inr packet"
    and "targets = parse_broadcasts (wr_broadcast payload) (default_broadcasts e)"
    and "\<forall>i<length targets. sendto_ok e (length (sendto_calls w) + i) (targets ! i)"
  shows "fst (wake e payload w) =
           Inr \<lparr>success = True, message = ''Magic packet sent'',
                data = Some [(''mac'', StrV (wr_mac payload)), (''broadcasts'', ListV targets)]\<rparr>"
    and "sendto_calls (snd (wake e payload w)) =
           sendto_calls w @ map (wake_datagram packet) targets"
  using wake_loop_all_sent[OF assms(1,3), of "[]"]
  by (simp_all add: wake_def assms(2)[symmetric])

lemma wake_first_failure:
  assumes "build_packet (wr_mac payload) = Inr packet"
    and "targets = parse_broadcasts (wr_broadcast payload) (default_broadcasts e)"
    and "k < length targets"
    and "\<forall>i<k. sendto_ok e (length (sendto_calls w) + i) (targets ! i)"
    and "\<not> sendto_ok e (length (sendto_calls w) + k) (targets ! k)"
  shows "fst (wake e payload w) =
           Inl (HTTPException 500 ''Error sending WOL packet: '' (Some OSError))"
    and "sendto_calls (snd (wake e payload w)) =
           sendto_calls w @ map (wake_datagram packet) (take (Suc k) targets)"
  using wake_loop_first_failure[OF assms(1,3,4,5), of "[]"]
  by (simp_all add: wake_def assms(2)[symmetric])

lemma first_failing_index:
  assumes "\<not> (\<forall>i<n::nat. P i)"
  obtains k where "k < n" "\<forall>i<k. P i" "\<not> P k"
proof -
  define k where "k = (LEAST i. \<not> P i)"
  from assms obtain i where i: "i < n" "\<not> P i" by blast
  have nk: "\<not> P k"
    unfolding k_def using LeastI[of "\<lambda>i. \<not> P i" i] i(2) by simp
  have "k \<le> i"
    unfolding k_def using Least_le[of "\<lambda>i. \<not> P i" i] i(2) by simp
  with i(1) have "k < n" by simp
  moreover have "\<forall>j<k. P j"
    unfolding k_def using not_less_Least by blast
  ultimately show ?thesis using nk by (rule that)
qed

text \<open>
  C1, as the specification states it, does not hold: with two targets of which the
  first fails and the second would succeed, \<open>wake\<close> reports the failure to the caller
  and the second target is never tried.
\<close>

theorem wake_reports_first_failure_counterexample:
  "sendto_ok env0 1 (py ''10.0.1.255'')
   \<and> fst (wake env0 \<lparr>wr_mac = mac0, wr_broadcast = Many [py ''10.0.0.255'', py ''10.0.1.255'']\<rparr> world0)
       = Inl (HTTPException 500 ''Error sending WOL packet: '' (Some OSError))
   \<and> sendto_calls (snd (wake env0 \<lparr>wr_mac = mac0, wr_broadcast = Many [py ''10.0.0.255'', py ''10.0.1.255'']\<rparr> world0))
       = [wake_datagram packet0 (py ''10.0.0.255'')]"
  by (simp add: wake_def env0_def world0_def send_magic_packet_built[OF build_packet_mac0] emit_def py_def)

text \<open>
  C1, amended: for a wake request with the ordered targets \<open>targets\<close>, \<open>wake\<close> tries
  the targets in order and stops at the first one whose send fails; it then reports
  the failure (HTTP 500) to the caller and the targets after it are not tried. It
  returns success exactly when every send succeeds, and then all targets were tried
  and all are listed in the reply.
\<close>

theorem wake_stops_at_first_failure:
  assumes "build_packet (wr_mac payload) = Inr packet"
    and "targets = parse_broadcasts (wr_broadcast payload) (default_broadcasts e)"
    and "n = length (sendto_calls w)"
  shows "((\<exists>reply. fst (wake e payload w) = Inr reply)
            \<longleftrightarrow> (\<forall>i<length targets. sendto_ok e (n + i) (targets ! i)))
       \<and> ((\<forall>i<length targets. sendto_ok e (n + i) (targets ! i)) \<longrightarrow>
            fst (wake e payload w) =
              Inr \<lparr>success = True, message = ''Magic packet sent'',
                   data = Some [(''mac'', StrV (wr_mac payload)), (''broadcasts'', ListV targets)]\<rparr>
          \<and> sendto_calls (snd (wake e payload w)) =
              sendto_calls w @ map (wake_datagram packet) targets)
       \<and> (\<forall>k<length targets.
            (\<forall>i<k. sendto_ok e (n + i) (targets ! i)) \<and> \<not> sendto_ok e (n + k) (targets ! k) \<longrightarrow>
            fst (wake e payload w) =
              Inl (HTTPException 500 ''Error sending WOL packet: '' (Some OSError))
          \<and> sendto_calls (snd (wake e payload w)) =
              sendto_calls w @ map (wake_datagram packet) (take (Suc k) targets))"
proof (intro conjI)
  show "(\<exists>reply. fst (wake e payload w) = Inr reply)
          \<longleftrightarrow> (\<forall>i<length targets. sendto_ok e (n + i) (targets ! i))"
  proof
    assume returned: "\<exists>reply. fst (wake e payload w) = Inr reply"
    show "\<forall>i<length targets. sendto_ok e (n + i) (targets ! i)"
    proof (rule ccontr)
      assume "\<not> (\<forall>i<length targets. sendto_ok e (n + i) (targets ! i))"
      then obtain k where k: "k < length targets"
        "\<forall>i<k. sendto_ok e (n + i) (targets ! i)" "\<not> sendto_ok e (n + k) (targets ! k)"
        by (rule first_failing_index)
      from wake_first_failure(1)[OF assms(1,2) k(1) k(2,3)[unfolded assms(3)]] returned
      show False by simp
    qed
  next
    assume "\<forall>i<length targets. sendto_ok e (n + i) (targets ! i)"
    from wake_all_sent(1)[OF assms(1,2) this[unfolded assms(3)]]
    show "\<exists>reply. fst (wake e payload w) = Inr reply" by blast
  qed
next
  show "(\<forall>i<length targets. sendto_ok e (n + i) (targets ! i)) \<longrightarrow>
            fst (wake e payload w) =
              Inr \<lparr>success = True, message = ''Magic packet sent'',
                   data = Some [(''mac'', StrV (wr_mac payload)), (''broadcasts'', ListV targets)]\<rparr>
          \<and> sendto_calls (snd (wake e payload w)) =
              sendto_calls w @ map (wake_datagram packet) targets"
    using wake_all_sent[OF assms(1,2)] unfolding assms(3) by blast
next
  show "\<forall>k<length targets.
            (\<forall>i<k. sendto_ok e (n + i) (targets ! i)) \<and> \<not> sendto_ok e (n + k) (targets ! k) \<longrightarrow>
            fst (wake e payload w) =
              Inl (HTTPException 500 ''Error sending WOL packet: '' (Some OSError))
          \<and> sendto_calls (snd (wake e payload w)) =
              sendto_calls w @ map (wake_datagram packet) (take (Suc k) targets)"
    using wake_first_failure[OF assms(1,2)] unfolding assms(3) by blast
qed

theorem wake_stops_at_first_failure_witness:
  "build_packet mac0 = Inr packet0
   \<and> fst (wake env0 \<lparr>wr_mac = mac0, wr_broadcast = Many [py ''10.0.1.255'', py ''10.0.0.255'', py ''10.0.2.255'']\<rparr> world0)
       = Inl (HTTPException 500 ''Error sending WOL packet: '' (Some OSError))
   \<and> sendto_calls (snd (wake env0 \<lparr>wr_mac = mac0, wr_broadcast = Many [py ''10.0.1.255'', py ''10.0.0.255'', py ''10.0.2.255'']\<rparr> world0))
       = [wake_datagram packet0 (py ''10.0.1.255''), wake_datagram packet0 (py ''10.0.0.255'')]
   \<and> fst (wake env0 \<lparr>wr_mac = mac0, wr_broadcast = Many [py ''10.0.1.255'', py ''10.0.2.255'']\<rparr> world0)
       = Inr \<lparr>success = True, message = ''Magic packet sent'',
              data = Some [(''mac'', StrV mac0), (''broadcasts'', ListV [py ''10.0.1.255'', py ''10.0.2.255''])]\<rparr>
   \<and> sendto_calls (snd (wake env0 \<lparr>wr_mac = mac0, wr_broadcast = Many [py ''10.0.1.255'', py ''10.0.2.255'']\<rparr> world0))
       = [wake_datagram packet0 (py ''10.0.1.255''), wake_datagram packet0 (py ''10.0.2.255'')]"
proof -
  let ?bad = "\<lparr>wr_mac = mac0, wr_broadcast = Many [py ''10.0.1.255'', py ''10.0.0.255'', py ''10.0.2.255'']\<rparr>"
  let ?good = "\<lparr>wr_mac = mac0, wr_broadcast = Many [py ''10.0.1.255'', py ''10.0.2.255'']\<rparr>"
  have b: "build_packet (wr_mac ?bad) = Inr packet0" "build_packet (wr_mac ?good) = Inr packet0"
    by (simp_all add: build_packet_mac0)
  have tb: "[py ''10.0.1.255'', py ''10.0.0.255'', py ''10.0.2.255'']
              = parse_broadcasts (wr_broadcast ?bad) (default_broadcasts env0)"
    by (simp add: py_def)
  have tg: "[py ''10.0.1.255'', py ''10.0.2.255'']
              = parse_broadcasts (wr_broadcast ?good) (default_broadcasts env0)"
    by (simp add: py_def)
  have n: "0 = length (sendto_calls world0)"
    by (simp add: world0_def)
  have ok: "sendto_ok env0 k (py ''10.0.1.255'')" "sendto_ok env0 k (py ''10.0.2.255'')"
    "\<not> sendto_ok env0 k (py ''10.0.0.255'')" for k
    by (simp_all add: env0_def py_def)
  have bad: "fst (wake env0 ?bad world0) = Inl (HTTPException 500 ''Error sending WOL packet: '' (Some OSError))
      \<and> sendto_calls (snd (wake env0 ?bad world0)) =
          [wake_datagram packet0 (py ''10.0.1.255''), wake_datagram packet0 (py ''10.0.0.255'')]"
    using wake_stops_at_first_failure[OF b(1) tb n, THEN conjunct2, THEN conjunct2, rule_format, of 1]
    by (simp add: ok world0_def)
  have good: "fst (wake env0 ?good world0) = Inr \<lparr>success = True, message = ''Magic packet sent'',
              data = Some [(''mac'', StrV mac0), (''broadcasts'', ListV [py ''10.0.1.255'', py ''10.0.2.255''])]\<rparr>
      \<and> sendto_calls (snd (wake env0 ?good world0)) =
          [wake_datagram packet0 (py ''10.0.1.255''), wake_datagram packet0 (py ''10.0.2.255'')]"
    using wake_stops_at_first_failure[OF b(2) tg n, THEN conjunct2, THEN conjunct1]
    by (simp add: ok world0_def less_Suc_eq all_conj_distrib)
  from build_packet_mac0 bad good show ?thesis by blast
qed

text \<open>
  C9: when the broadcast field of a wake request is a list that is empty or holds only
  empty strings, the resolved target list is empty, whatever the configured defaults
  are; \<open>wake\<close> sends nothing, changes nothing and returns success with an empty list of
  broadcasts.
\<close>

theorem wake_empty_broadcast_list:
  assumes "\<forall>x\<in>set raw. x = []"
  shows "parse_broadcasts (Many raw) (default_broadcasts e) = []
       \<and> wake e \<lparr>wr_mac = mac, wr_broadcast = Many raw\<rparr> w =
           (Inr \<lparr>success = True, message = ''Magic packet sent'',
                 data = Some [(''mac'', StrV mac), (''broadcasts'', ListV [])]\<rparr>, w)"
proof -
  have "filter (\<lambda>x. x \<noteq> []) raw = []"
    using assms by (simp add: filter_empty_conv)
  then show ?thesis
    by (simp add: wake_def)
qed

theorem wake_empty_broadcast_list_witness:
  "default_broadcasts env0 = [py ''255.255.255.255'']
   \<and> parse_broadcasts (Many [[], []]) (default_broadcasts env0) = []
   \<and> wake env0 \<lparr>wr_mac = mac0, wr_broadcast = Many [[], []]\<rparr> world0 =
           (Inr \<lparr>success = True, message = ''Magic packet sent'',
                 data = Some [(''mac'', StrV mac0), (''broadcasts'', ListV [])]\<rparr>, world0)
   \<and> wake env0 \<lparr>wr_mac = mac0, wr_broadcast = Many []\<rparr> world0 =
           (Inr \<lparr>success = True, message = ''Magic packet sent'',
                 data = Some [(''mac'', StrV mac0), (''broadcasts'', ListV [])]\<rparr>, world0)"
proof -
  have h: "\<forall>x\<in>set [[], []::str]. x = []" by simp
  have h0: "\<forall>x\<in>set ([]::str list). x = []" by simp
  have d: "default_broadcasts env0 = [py ''255.255.255.255'']" by (simp add: env0_def)
  from d wake_empty_broadcast_list[OF h, of env0 mac0 world0]
    wake_empty_broadcast_list[OF h0, of env0 mac0 world0]
  show ?thesis by blast
qed


section \<open>The record store\<close>

lemma Database_get_device_Inr:
  "Database_get_device d i = Inr r \<longleftrightarrow>
     sqlite_integer i \<and> r = find (\<lambda>row. d_id row = i) (devices d)"
  by (auto simp: Database_get_device_def with_parameter_def)

lemma Database_get_device_Inl:
  "Database_get_device d i = Inl exc \<longleftrightarrow> \<not> sqlite_integer i \<and> exc = OverflowError"
  by (auto simp: Database_get_device_def with_parameter_def)

section \<open>Scheduled wake\<close>

lemma run_job_store_error:
  assumes "\<not> sqlite_integer (cl_device_id c)"
  shows "run_job e c w = (Inl OverflowError, w)"
  using assms by (simp add: run_job_def Database_get_device_def with_parameter_def)

lemma job_loop_not_built:
  assumes "build_packet mac = Inl exc"
  shows "job_loop e c mac bs w =
           w\<lparr>logged := logged w @ map (\<lambda>b. fire_record c b (Some exc)) bs\<rparr>"
proof (induction bs arbitrary: w)
  case Nil
  then show ?case by simp
next
  case (Cons b bs)
  show ?case
    by (simp add: send_magic_packet_not_built[OF assms] Cons.IH emit_def fire_record_def)
qed

lemma job_loop_built:
  assumes "build_packet mac = Inr packet"
  shows "job_loop e c mac bs w =
           w\<lparr>sendto_calls := sendto_calls w @ map (wake_datagram packet) bs,
             logged := logged w @
               map (\<lambda>i. fire_record c (bs ! i)
                          (if sendto_ok e (length (sendto_calls w) + i) (bs ! i)
                           then None else Some OSError))
                 [0..<length bs]\<rparr>"
proof (induction bs arbitrary: w)
  case Nil
  then show ?case by simp
next
  case (Cons b bs)
  let ?out = "if sendto_ok e (length (sendto_calls w)) b then None else Some OSError"
  let ?w = "emit (fire_record c b ?out) (w\<lparr>sendto_calls := sendto_calls w @ [wake_datagram packet b]\<rparr>)"
  have step: "job_loop e c mac (b # bs) w = job_loop e c mac bs ?w"
    by (simp add: send_magic_packet_built[OF assms] fire_record_def)
  have idx: "[0..<length (b # bs)] = 0 # map Suc [0..<length bs]"
    by (simp add: upt_conv_Cons map_Suc_upt del: upt_Suc)
  show ?case
    unfolding step Cons.IH idx by (simp add: emit_def comp_def)
qed

text \<open>
  C6: when the device identifier captured by a job resolves to no device at fire time,
  the fire is a no-op: \<open>_job\<close> returns without an exception, logs one warning, calls
  \<open>sendto\<close> not at all, and leaves the job table (so the job stays armed) and the
  store as they were.
\<close>

theorem fire_without_device_is_noop:
  assumes "Database_get_device (db w) (cl_device_id c) = Inr None"
  shows "fst (run_job e c w) = Inr ()
       \<and> sendto_calls (snd (run_job e c w)) = sendto_calls w
       \<and> jobs (snd (run_job e c w)) = jobs w
       \<and> db (snd (run_job e c w)) = db w
       \<and> logged (snd (run_job e c w)) =
           logged w @ [log_line WARNING ''schedule_device_not_found''
                         [(''schedule_id'', IntV (cl_schedule_id c)),
                          (''device_id'', IntV (cl_device_id c))]]"
  using assms by (simp add: run_job_def emit_def)

theorem fire_without_device_is_noop_witness:
  "Database_get_device (db world0) (cl_device_id (schedule_job 7 1 None)) = Inr None
   \<and> fst (run_job env0 (schedule_job 7 1 None) world0) = Inr ()
   \<and> sendto_calls (snd (run_job env0 (schedule_job 7 1 None) world0)) = []
   \<and> jobs (snd (run_job env0 (schedule_job 7 1 None) world0)) = jobs world0
   \<and> logged (snd (run_job env0 (schedule_job 7 1 None) world0)) =
       [log_line WARNING ''schedule_device_not_found''
          [(''schedule_id'', IntV 7), (''device_id'', IntV 1)]]"
proof -
  have h: "Database_get_device (db world0) (cl_device_id (schedule_job 7 1 None)) = Inr None"
    by (simp add: Database_get_device_def with_parameter_def sqlite_integer_def world0_def
        schedule_job_def)
  from fire_without_device_is_noop[OF h, of env0] h show ?thesis
    by (simp add: world0_def schedule_job_def)
qed

text \<open>
  C7: in a scheduled fire a send that fails is only logged. \<open>_job\<close> returns without an
  exception whatever the outcomes are; every target of the fire is tried, in order,
  also after a failure; and the job table and the store (with the schedule's enabled
  flag) are unchanged, so the job is neither removed nor disabled. When the stored MAC
  is one the builder rejects, every target is logged as failed and nothing is sent.
\<close>

theorem fire_attempts_every_target:
  assumes "Database_get_device (db w) (cl_device_id c) = Inr (Some device)"
    and "targets = selected (cl_broadcasts c) device"
    and "n = length (sendto_calls w)"
  shows "fst (run_job e c w) = Inr ()
       \<and> jobs (snd (run_job e c w)) = jobs w
       \<and> db (snd (run_job e c w)) = db w
       \<and> (case build_packet (d_mac device) of
            Inr packet \<Rightarrow>
              sendto_calls (snd (run_job e c w)) =
                sendto_calls w @ map (wake_datagram packet) targets
            \<and> logged (snd (run_job e c w)) =
                logged w @
                map (\<lambda>i. fire_record c (targets ! i)
                           (if sendto_ok e (n + i) (targets ! i) then None else Some OSError))
                  [0..<length targets]
          | Inl exc \<Rightarrow>
              sendto_calls (snd (run_job e c w)) = sendto_calls w
            \<and> logged (snd (run_job e c w)) =
                logged w @ map (\<lambda>b. fire_record c b (Some exc)) targets)"
proof (cases "build_packet (d_mac device)")
  case (Inl exc)
  show ?thesis
    unfolding assms(2,3) by (simp add: run_job_def assms(1) Inl job_loop_not_built[OF Inl])
next
  case (Inr packet)
  show ?thesis
    unfolding assms(2,3) by (simp add: run_job_def assms(1) Inr job_loop_built[OF Inr])
qed

theorem fire_attempts_every_target_witness:
  "Database_get_device (db world1) (cl_device_id (schedule_job 7 1 None)) = Inr (Some device1)
   \<and> \<not> sendto_ok env0 0 (py ''10.0.0.255'')
   \<and> fst (run_job env0 (schedule_job 7 1 None) world1) = Inr ()
   \<and> jobs (snd (run_job env0 (schedule_job 7 1 None) world1)) = jobs world1
   \<and> db (snd (run_job env0 (schedule_job 7 1 None) world1)) = db world1
   \<and> sendto_calls (snd (run_job env0 (schedule_job 7 1 None) world1)) =
       [wake_datagram packet0 (py ''10.0.0.255''), wake_datagram packet0 (py ''10.0.1.255'')]
   \<and> logged (snd (run_job env0 (schedule_job 7 1 None) world1)) =
       [fire_record (schedule_job 7 1 None) (py ''10.0.0.255'') (Some OSError),
        fire_record (schedule_job 7 1 None) (py ''10.0.1.255'') None]"
proof -
  have h: "Database_get_device (db world1) (cl_device_id (schedule_job 7 1 None)) = Inr (Some device1)"
    by (simp add: Database_get_device_def with_parameter_def sqlite_integer_def world1_def schedule_job_def device1_def)
  have t: "[py ''10.0.0.255'', py ''10.0.1.255''] = selected (cl_broadcasts (schedule_job 7 1 None)) device1"
    by (simp add: selected_def schedule_job_def device1_def)
  have n: "0 = length (sendto_calls world1)"
    by (simp add: world1_def world0_def)
  have b: "build_packet (d_mac device1) = Inr packet0"
    by (simp add: device1_def build_packet_mac0)
  have ok: "\<not> sendto_ok env0 0 (py ''10.0.0.255'')" "sendto_ok env0 1 (py ''10.0.1.255'')"
    by (simp_all add: env0_def py_def)
  have up: "[0..<2] = [0, 1::nat]"
    by (simp add: upt_rec)
  from fire_attempts_every_target[OF h t n, of env0] h ok show ?thesis
    by (simp add: b world1_def world0_def up)
qed

subsection \<open>The broadcast list of a fire\<close>

lemma fold_max_start: "(seq::int) \<le> fold max ids seq"
proof (induction ids arbitrary: seq)
  case Nil
  show ?case by simp
next
  case (Cons i ids)
  have "seq \<le> max i seq" by simp
  also have "\<dots> \<le> fold max ids (max i seq)" by (rule Cons.IH)
  finally show ?case by simp
qed

lemma fold_max_ge: "x \<in> set ids \<Longrightarrow> x \<le> fold max ids (seq::int)"
proof (induction ids arbitrary: seq)
  case Nil
  then show ?case by simp
next
  case (Cons i ids)
  show ?case
  proof (cases "x = i")
    case True
    have "x \<le> max i seq" using True by simp
    also have "\<dots> \<le> fold max ids (max i seq)" by (rule fold_max_start)
    finally show ?thesis by simp
  next
    case False
    with Cons.prems have "x \<in> set ids" by simp
    then show ?thesis using Cons.IH by simp
  qed
qed

lemma next_rowid_fresh: "x \<in> set ids \<Longrightarrow> x \<noteq> next_rowid seq ids"
  using fold_max_ge[of x ids seq] by (auto simp: next_rowid_def)

lemma add_schedule_succeeds:
  assumes "add_schedule e payload w0 = (Inr reply, w1)"
  obtains device0 where
    "Database_get_device (db w0) (sc_device_id payload) = Inr (Some device0)"
    "crontab_ok e (sc_cron payload)"
  using assms
  by (auto simp: add_schedule_def from_crontab_def Let_def
      split: sum.splits option.splits if_splits prod.splits)

lemma add_schedule_created:
  assumes "Database_get_device (db w0) (sc_device_id payload) = Inr (Some device0)"
    and "crontab_ok e (sc_cron payload)"
    and "schedule_id = next_rowid (schedules_seq (db w0)) (map s_id (schedules (db w0)))"
    and "row = \<lparr>s_id = schedule_id, s_device_id = sc_device_id payload, s_cron_expr = sc_cron payload,
                 s_broadcasts = (case sc_broadcasts payload of
                                   None \<Rightarrow> None
                                 | Some bs \<Rightarrow> if bs \<noteq> [] then Some bs else None),
                 s_enabled = 1, s_created_at = utcnow e\<rparr>"
  shows "add_schedule e payload w0 =
           (Inr \<lparr>success = True, message = ''Schedule added'',
                 data = Some [(''id'', IntV schedule_id)]\<rparr>,
            w0\<lparr>db := (db w0)\<lparr>schedules := schedules (db w0) @ [row], schedules_seq := schedule_id\<rparr>,
               jobs := (jobs w0)(Schedule_job schedule_id \<mapsto>
                 \<lparr>job_func = schedule_job schedule_id (sc_device_id payload) (sc_broadcasts payload),
                  job_trigger = CronTrigger (sc_cron payload)\<rparr>),
               logged := logged w0 @
                 [log_line INFO ''schedule_created''
                    [(''schedule_id'', IntV schedule_id), (''device_id'', IntV (sc_device_id payload))]]\<rparr>)"
proof -
  from assms(1) have "sqlite_integer (sc_device_id payload)"
    by (simp add: Database_get_device_Inr)
  then show ?thesis
    unfolding assms(3,4)
    by (simp add: add_schedule_def assms(1,2) from_crontab_def Database_add_schedule_def
        with_parameter_def Let_def emit_def)
qed

lemma selected_persisted:
  "selected broadcasts device =
     (case (case broadcasts of None \<Rightarrow> None | Some bs \<Rightarrow> if bs \<noteq> [] then Some bs else None) of
        Some bs \<Rightarrow> bs
      | None \<Rightarrow> d_broadcasts device)"
  by (simp add: selected_def split: option.splits)

lemma run_job_selected:
  assumes "Database_get_device (db w) (cl_device_id c) = Inr (Some device)"
  shows "run_job e c w = (Inr (), job_loop e c (d_mac device) (selected (cl_broadcasts c) device) w)"
  using assms by (simp add: run_job_def)

text \<open>
  C4: take a schedule created by \<open>add_schedule\<close> and any later state \<open>w\<close> in which its
  job fires and the owning device exists. The fire sends to one list, fixed before the
  first send: the broadcast override of the persisted schedule when it has one, and
  otherwise the broadcast list of the device record read from \<open>w\<close>, the state at fire
  time, not from the state in which the schedule was created.
\<close>

theorem fire_resolves_broadcasts_at_fire_time:
  assumes "add_schedule e payload w0 = (Inr reply, w1)"
    and "Database_get_device (db w) (sc_device_id payload) = Inr (Some device)"
  shows "\<exists>schedule_id row j.
           data reply = Some [(''id'', IntV schedule_id)]
         \<and> filter (\<lambda>r. s_id r = schedule_id) (schedules (db w1)) = [row]
         \<and> s_device_id row = sc_device_id payload
         \<and> jobs w1 (Schedule_job schedule_id) = Some j
         \<and> run_job e' (job_func j) w =
             (Inr (), job_loop e' (job_func j) (d_mac device)
                        (case s_broadcasts row of Some bs \<Rightarrow> bs | None \<Rightarrow> d_broadcasts device) w)
         \<and> (\<forall>packet. build_packet (d_mac device) = Inr packet \<longrightarrow>
               sendto_calls (snd (run_job e' (job_func j) w)) =
                 sendto_calls w @
                 map (wake_datagram packet)
                   (case s_broadcasts row of Some bs \<Rightarrow> bs | None \<Rightarrow> d_broadcasts device))"
proof -
  from assms(1) obtain device0 where
    d0: "Database_get_device (db w0) (sc_device_id payload) = Inr (Some device0)" and
    cron: "crontab_ok e (sc_cron payload)"
    by (rule add_schedule_succeeds)
  define schedule_id where
    "schedule_id = next_rowid (schedules_seq (db w0)) (map s_id (schedules (db w0)))"
  define row where
    "row = \<lparr>s_id = schedule_id, s_device_id = sc_device_id payload, s_cron_expr = sc_cron payload,
            s_broadcasts = (case sc_broadcasts payload of
                              None \<Rightarrow> None
                            | Some bs \<Rightarrow> if bs \<noteq> [] then Some bs else None),
            s_enabled = 1, s_created_at = utcnow e\<rparr>"
  define j where
    "j = \<lparr>job_func = schedule_job schedule_id (sc_device_id payload) (sc_broadcasts payload),
          job_trigger = CronTrigger (sc_cron payload)\<rparr>"
  note created = add_schedule_created[OF d0 cron schedule_id_def row_def]
  from assms(1) created have reply: "data reply = Some [(''id'', IntV schedule_id)]"
    by auto
  from assms(1) created have store: "schedules (db w1) = schedules (db w0) @ [row]"
    by auto
  from assms(1) created have table: "jobs w1 (Schedule_job schedule_id) = Some j"
    by (auto simp: j_def)
  have old: "filter (\<lambda>r. s_id r = schedule_id) (schedules (db w0)) = []"
  proof -
    have "s_id r \<noteq> schedule_id" if "r \<in> set (schedules (db w0))" for r
      unfolding schedule_id_def using that by (intro next_rowid_fresh) simp
    then show ?thesis by (simp add: filter_empty_conv)
  qed
  have one: "filter (\<lambda>r. s_id r = schedule_id) (schedules (db w1)) = [row]"
    unfolding store by (simp add: old) (simp add: row_def)
  have owner: "s_device_id row = sc_device_id payload"
    by (simp add: row_def)
  have dev: "Database_get_device (db w) (cl_device_id (job_func j)) = Inr (Some device)"
    using assms(2) by (simp add: j_def schedule_job_def)
  have targets: "selected (cl_broadcasts (job_func j)) device =
      (case s_broadcasts row of Some bs \<Rightarrow> bs | None \<Rightarrow> d_broadcasts device)"
    by (simp add: selected_persisted j_def schedule_job_def row_def)
  have fire: "run_job e' (job_func j) w =
      (Inr (), job_loop e' (job_func j) (d_mac device)
                 (case s_broadcasts row of Some bs \<Rightarrow> bs | None \<Rightarrow> d_broadcasts device) w)"
    using run_job_selected[OF dev] unfolding targets .
  have calls: "sendto_calls (snd (run_job e' (job_func j) w)) =
      sendto_calls w @ map (wake_datagram packet)
        (case s_broadcasts row of Some bs \<Rightarrow> bs | None \<Rightarrow> d_broadcasts device)"
    if "build_packet (d_mac device) = Inr packet" for packet
    unfolding fire by (simp add: job_loop_built[OF that])
  from reply one owner table fire calls show ?thesis
    by blast
qed


lemma add_schedule_world1: "add_schedule env0 payload1 world1 = (Inr reply1, world1s)"
proof -
  have d1: "Database_get_device (db world1) (sc_device_id payload1) = Inr (Some device1)"
    by (simp add: Database_get_device_def with_parameter_def sqlite_integer_def world1_def payload1_def device1_def)
  have cron: "crontab_ok env0 (sc_cron payload1)"
    by (simp add: env0_def payload1_def)
  have id: "next_rowid (schedules_seq (db world1)) (map s_id (schedules (db world1))) = 1"
    by (simp add: next_rowid_def world1_def)
  show ?thesis
    unfolding add_schedule_created[OF d1 cron refl refl] id
    by (simp add: reply1_def world1s_def schedule1_def job1_def payload1_def env0_def world1_def world0_def)
qed

theorem fire_resolves_broadcasts_at_fire_time_witness:
  "add_schedule env0 payload1 world1 = (Inr reply1, world1s)
   \<and> Database_get_device (db world1) (sc_device_id payload1) = Inr (Some device1)
   \<and> Database_get_device (db world2) (sc_device_id payload1) = Inr (Some device2)
   \<and> d_broadcasts device1 = [py ''10.0.0.255'', py ''10.0.1.255'']
   \<and> d_broadcasts device2 = [py ''10.0.2.255'']
   \<and> (\<exists>schedule_id row j.
           data reply1 = Some [(''id'', IntV schedule_id)]
         \<and> filter (\<lambda>r. s_id r = schedule_id) (schedules (db world1s)) = [row]
         \<and> s_device_id row = sc_device_id payload1
         \<and> jobs world1s (Schedule_job schedule_id) = Some j
         \<and> run_job env0 (job_func j) world2 =
             (Inr (), job_loop env0 (job_func j) (d_mac device2)
                        (case s_broadcasts row of Some bs \<Rightarrow> bs | None \<Rightarrow> d_broadcasts device2) world2)
         \<and> (\<forall>packet. build_packet (d_mac device2) = Inr packet \<longrightarrow>
               sendto_calls (snd (run_job env0 (job_func j) world2)) =
                 sendto_calls world2 @
                 map (wake_datagram packet)
                   (case s_broadcasts row of Some bs \<Rightarrow> bs | None \<Rightarrow> d_broadcasts device2)))
   \<and> sendto_calls (snd (run_job env0 (job_func job1) world2)) =
       [wake_datagram packet0 (py ''10.0.2.255'')]"
proof -
  have d1: "Database_get_device (db world1) (sc_device_id payload1) = Inr (Some device1)"
    by (simp add: Database_get_device_def with_parameter_def sqlite_integer_def world1_def payload1_def device1_def)
  have d2: "Database_get_device (db world2) (sc_device_id payload1) = Inr (Some device2)"
    by (simp add: Database_get_device_def with_parameter_def sqlite_integer_def world2_def payload1_def device2_def device1_def)
  have b1: "d_broadcasts device1 = [py ''10.0.0.255'', py ''10.0.1.255'']"
    by (simp add: device1_def)
  have b2: "d_broadcasts device2 = [py ''10.0.2.255'']"
    by (simp add: device2_def)
  have bp: "build_packet (d_mac device2) = Inr packet0"
    by (simp add: device2_def device1_def build_packet_mac0)
  have d2': "Database_get_device (db world2) (cl_device_id (job_func job1)) = Inr (Some device2)"
    using d2 by (simp add: job1_def schedule_job_def payload1_def)
  have sent: "sendto_calls (snd (run_job env0 (job_func job1) world2)) =
       [wake_datagram packet0 (py ''10.0.2.255'')]"
    unfolding run_job_selected[OF d2'] snd_conv job_loop_built[OF bp]
    by (simp add: selected_def job1_def schedule_job_def b2 world2_def world1_def world0_def)
  note main = fire_resolves_broadcasts_at_fire_time[OF add_schedule_world1 d2, of env0]
  show ?thesis
    using add_schedule_world1 d1 d2 b1 b2 main sent by - (intro conjI, assumption+)
qed

section \<open>Creating a schedule\<close>

text \<open>
  C5: when \<open>CronTrigger.from_crontab\<close> rejects the cron expression of a schedule-creation
  request, \<open>add_schedule\<close> ends with an error for its caller at once and the state is left
  as it was: no schedule row is written and no job is armed. The error is HTTP 400
  naming the invalid expression when the device exists. The device is looked up first,
  so the error is HTTP 404 when there is no such device, and the \<open>OverflowError\<close> of the
  store, which nothing catches, when the device identifier does not fit a 64-bit
  integer. The expression is parsed before the row is inserted.
\<close>

theorem malformed_cron_not_persisted:
  assumes "from_crontab e (sc_cron payload) = Inl exc"
  shows "fst (add_schedule e payload w) =
           Inl (if \<not> sqlite_integer (sc_device_id payload) then Unhandled OverflowError
                else if find (\<lambda>row. d_id row = sc_device_id payload) (devices (db w)) = None
                then HTTPException 404 ''Device not found'' None
                else HTTPException 400 ''Invalid cron expression: '' (Some exc))
       \<and> snd (add_schedule e payload w) = w
       \<and> schedules (db (snd (add_schedule e payload w))) = schedules (db w)
       \<and> jobs (snd (add_schedule e payload w)) = jobs w"
proof (cases "Database_get_device (db w) (sc_device_id payload)")
  case (Inl overflow)
  then have "\<not> sqlite_integer (sc_device_id payload)" and "overflow = OverflowError"
    by (simp_all add: Database_get_device_Inl)
  with Inl show ?thesis
    by (simp add: add_schedule_def)
next
  case (Inr found)
  then have range: "sqlite_integer (sc_device_id payload)"
    and row: "find (\<lambda>row. d_id row = sc_device_id payload) (devices (db w)) = found"
    by (simp_all add: Database_get_device_Inr)
  show ?thesis
  proof (cases found)
    case None
    with Inr have "Database_get_device (db w) (sc_device_id payload) = Inr None"
      by simp
    then show ?thesis
      using range row None by (simp add: add_schedule_def)
  next
    case (Some device)
    with Inr have "Database_get_device (db w) (sc_device_id payload) = Inr (Some device)"
      by simp
    then show ?thesis
      using range row Some assms by (simp add: add_schedule_def)
  qed
qed

theorem malformed_cron_not_persisted_witness:
  "from_crontab env0 (sc_cron (payload1\<lparr>sc_cron := py ''every day''\<rparr>)) = Inl ValueError
   \<and> fst (add_schedule env0 (payload1\<lparr>sc_cron := py ''every day''\<rparr>) world1) =
       Inl (HTTPException 400 ''Invalid cron expression: '' (Some ValueError))
   \<and> snd (add_schedule env0 (payload1\<lparr>sc_cron := py ''every day''\<rparr>) world1) = world1
   \<and> schedules (db (snd (add_schedule env0 (payload1\<lparr>sc_cron := py ''every day''\<rparr>) world1))) = []
   \<and> jobs (snd (add_schedule env0 (payload1\<lparr>sc_cron := py ''every day''\<rparr>) world1)) = Map.empty
   \<and> fst (add_schedule env0 (payload1\<lparr>sc_cron := py ''every day'', sc_device_id := 5\<rparr>) world1) =
       Inl (HTTPException 404 ''Device not found'' None)
   \<and> snd (add_schedule env0 (payload1\<lparr>sc_cron := py ''every day'', sc_device_id := 5\<rparr>) world1) = world1
   \<and> fst (add_schedule env0 (payload1\<lparr>sc_cron := py ''every day'', sc_device_id := 2 ^ 63\<rparr>) world1) =
       Inl (Unhandled OverflowError)
   \<and> snd (add_schedule env0 (payload1\<lparr>sc_cron := py ''every day'', sc_device_id := 2 ^ 63\<rparr>) world1) = world1"
proof -
  have h: "from_crontab env0 (sc_cron (payload1\<lparr>sc_cron := py ''every day''\<rparr>)) = Inl ValueError"
    by (simp add: from_crontab_def env0_def py_def)
  have h5: "from_crontab env0 (sc_cron (payload1\<lparr>sc_cron := py ''every day'', sc_device_id := 5\<rparr>)) = Inl ValueError"
    and h63: "from_crontab env0 (sc_cron (payload1\<lparr>sc_cron := py ''every day'', sc_device_id := 2 ^ 63\<rparr>)) = Inl ValueError"
    using h by simp_all
  have d: "devices (db world1) = [device1]" "d_id device1 = 1" "sc_device_id payload1 = 1"
    by (simp_all add: world1_def payload1_def device1_def)
  have s: "schedules (db world1) = []" "jobs world1 = Map.empty"
    by (simp_all add: world1_def world0_def)
  from malformed_cron_not_persisted[OF h, of world1] malformed_cron_not_persisted[OF h5, of world1]
    malformed_cron_not_persisted[OF h63, of world1] h
  show ?thesis
    by (simp add: s d sqlite_integer_def)
qed

section \<open>Deleting a device\<close>

lemma remove_jobs_apply:
  "remove_jobs ids table k = (if k \<in> Schedule_job ` set ids then None else table k)"
proof (induction ids arbitrary: table)
  case Nil
  show ?case by simp
next
  case (Cons i ids)
  show ?case
    unfolding remove_jobs.simps Cons.IH by auto
qed

text \<open>
  C8: deleting an existing device succeeds, removes the device and every schedule of
  that device from the store, and leaves no job-table entry under the identifier of
  any of those schedules; the entries of all other jobs are untouched.
\<close>

theorem delete_device_cascades:
  assumes "Database_get_device (db w) device_id = Inr (Some device)"
    and "w' = snd (delete_device e device_id w)"
  shows "fst (delete_device e device_id w) =
           Inr \<lparr>success = True, message = ''Device deleted'', data = None\<rparr>
       \<and> Database_get_device (db w') device_id = Inr None
       \<and> schedules (db w') = filter (\<lambda>s. s_device_id s \<noteq> device_id) (schedules (db w))
       \<and> (\<forall>s\<in>set (schedules (db w')). s_device_id s \<noteq> device_id)
       \<and> (\<forall>s\<in>set (schedules (db w)). s_device_id s = device_id \<longrightarrow> jobs w' (Schedule_job (s_id s)) = None)
       \<and> (\<forall>k. k \<notin> Schedule_job ` s_id ` {s \<in> set (schedules (db w)). s_device_id s = device_id} \<longrightarrow>
             jobs w' k = jobs w k)"
proof -
  define schedule_ids where
    "schedule_ids = map s_id (filter (\<lambda>row. s_device_id row = device_id) (schedules (db w)))"
  from assms(1) have range: "sqlite_integer device_id"
    and lookup: "find (\<lambda>row. d_id row = device_id) (devices (db w)) = Some device"
    by (simp_all add: Database_get_device_Inr)
  have found: "filter (\<lambda>row. d_id row = device_id) (devices (db w)) \<noteq> []"
    using lookup by (auto simp: filter_empty_conv find_Some_iff)
  have ids: "list_schedule_ids_for_device (db w) device_id = Inr schedule_ids"
    using range by (simp add: list_schedule_ids_for_device_def with_parameter_def schedule_ids_def)
  have w': "w' = emit (log_line INFO ''device_deleted'' [(''device_id'', IntV device_id)])
               (w\<lparr>db := (db w)\<lparr>schedules := filter (\<lambda>row. s_device_id row \<noteq> device_id) (schedules (db w)),
                               devices := filter (\<lambda>row. d_id row \<noteq> device_id) (devices (db w))\<rparr>,
                  jobs := remove_jobs schedule_ids (jobs w)\<rparr>)"
    and reply: "fst (delete_device e device_id w) =
           Inr \<lparr>success = True, message = ''Device deleted'', data = None\<rparr>"
    unfolding assms(2) using found range
    by (simp_all add: delete_device_def ids Database_delete_device_def with_parameter_def)
  have store: "schedules (db w') = filter (\<lambda>s. s_device_id s \<noteq> device_id) (schedules (db w))"
    and gone: "Database_get_device (db w') device_id = Inr None"
    and table: "jobs w' = remove_jobs schedule_ids (jobs w)"
    unfolding w' using range
    by (simp_all add: emit_def Database_get_device_def with_parameter_def find_None_iff)
  have removed: "jobs w' (Schedule_job (s_id s)) = None"
    if "s \<in> set (schedules (db w))" "s_device_id s = device_id" for s
    unfolding table remove_jobs_apply using that by (auto simp: schedule_ids_def)
  have kept: "jobs w' k = jobs w k"
    if "k \<notin> Schedule_job ` s_id ` {s \<in> set (schedules (db w)). s_device_id s = device_id}" for k
  proof -
    have "set schedule_ids = s_id ` {s \<in> set (schedules (db w)). s_device_id s = device_id}"
      by (auto simp: schedule_ids_def)
    with that show ?thesis
      unfolding table remove_jobs_apply by simp
  qed
  from reply gone store removed kept show ?thesis
    by auto
qed

lemma add_schedule_world1s: "snd (add_schedule env0 payload2 world1s) = world3"
proof -
  have d1: "Database_get_device (db world1s) (sc_device_id payload2) = Inr (Some device1)"
    by (simp add: Database_get_device_def with_parameter_def sqlite_integer_def world1s_def world1_def payload2_def device1_def)
  have cron: "crontab_ok env0 (sc_cron payload2)"
    by (simp add: env0_def payload2_def)
  have id: "next_rowid (schedules_seq (db world1s)) (map s_id (schedules (db world1s))) = 2"
    by (simp add: next_rowid_def world1s_def world1_def schedule1_def)
  show ?thesis
    unfolding add_schedule_created[OF d1 cron refl refl] id snd_conv
    by (simp add: world3_def world1s_def schedule2_def job2_def payload2_def env0_def world1_def
        world0_def fun_upd_twist)
qed

theorem delete_device_cascades_witness:
  "Database_get_device (db world3) 1 = Inr (Some device1)
   \<and> map s_device_id (schedules (db world3)) = [1, 1]
   \<and> jobs world3 (Schedule_job 1) = Some job1
   \<and> jobs world3 (Schedule_job 2) = Some job2
   \<and> fst (delete_device env0 1 world3) =
       Inr \<lparr>success = True, message = ''Device deleted'', data = None\<rparr>
   \<and> Database_get_device (db (snd (delete_device env0 1 world3))) 1 = Inr None
   \<and> schedules (db (snd (delete_device env0 1 world3))) = []
   \<and> jobs (snd (delete_device env0 1 world3)) (Schedule_job 1) = None
   \<and> jobs (snd (delete_device env0 1 world3)) (Schedule_job 2) = None"
proof -
  have h: "Database_get_device (db world3) 1 = Inr (Some device1)"
    by (simp add: Database_get_device_def with_parameter_def sqlite_integer_def world3_def world1_def device1_def)
  have rows: "schedules (db world3) = [schedule1, schedule2]"
    by (simp add: world3_def)
  have owner: "s_device_id schedule1 = 1" "s_device_id schedule2 = 1"
    "s_id schedule1 = 1" "s_id schedule2 = 2"
    by (simp_all add: schedule1_def schedule2_def)
  have armed: "jobs world3 (Schedule_job 1) = Some job1" "jobs world3 (Schedule_job 2) = Some job2"
    by (simp_all add: world3_def)
  from delete_device_cascades[OF h refl, of env0] h armed show ?thesis
    by (simp add: rows owner)
qed


section \<open>Malformed MAC addresses in the packet builder\<close>

lemma is_hex_digit_iff: "is_hex_digit c \<longleftrightarrow> PyLong_DigitValue c < 16"
  by (auto simp: is_hex_digit_def PyLong_DigitValue_def)

lemma fromhex_error: "fromhex s = Inl e \<Longrightarrow> e = ValueError"
  by (induction s arbitrary: e rule: fromhex.induct) (auto split: if_splits sum.splits)

lemma fromhex_accepts:
  assumes "fromhex s = Inr bs"
  shows "(\<forall>c\<in>set s. is_hex_digit c \<or> Py_ISSPACE c) \<and> even (length (filter is_hex_digit s))"
  using assms
proof (induction s arbitrary: bs rule: fromhex.induct)
  case 1
  show ?case by simp
next
  case (2 c)
  then have "Py_ISSPACE c" by (simp split: if_splits)
  then show ?case using hex_digit_facts(3)[of c] by auto
next
  case (3 c d cs)
  show ?case
  proof (cases "Py_ISSPACE c")
    case True
    with 3 have "(\<forall>c\<in>set (d # cs). is_hex_digit c \<or> Py_ISSPACE c)
        \<and> even (length (filter is_hex_digit (d # cs)))"
      by simp
    moreover have "\<not> is_hex_digit c"
      using True hex_digit_facts(3)[of c] by blast
    ultimately show ?thesis using True by simp
  next
    case False
    with "3.prems" have c: "is_hex_digit c" and d: "is_hex_digit d"
      by (auto simp: is_hex_digit_iff not_le split: if_splits)
    from c d have nc: "\<not> 16 \<le> PyLong_DigitValue c" "\<not> 16 \<le> PyLong_DigitValue d"
      by (simp_all add: is_hex_digit_iff)
    from "3.prems" False nc obtain bs' where rest: "fromhex cs = Inr bs'"
      by (auto split: sum.splits)
    have "(\<forall>c\<in>set cs. is_hex_digit c \<or> Py_ISSPACE c)
        \<and> even (length (filter is_hex_digit cs))"
      using False nc rest by (rule "3.IH"(2))
    then show ?thesis using c d by simp
  qed
qed

lemma normalize_mac_accepts:
  assumes "normalize_mac mac = Inr bs"
  shows "(\<forall>c\<in>set mac. is_hex_digit c \<or> c = 58 \<or> c = 45 \<or> Py_ISSPACE c)
       \<and> even (length (filter is_hex_digit mac))"
proof -
  let ?clean = "str_delete 45 (str_delete 58 mac)"
  from assms have "fromhex ?clean = Inr bs"
    by (simp add: normalize_mac_def)
  then have ok: "\<forall>c\<in>set ?clean. is_hex_digit c \<or> Py_ISSPACE c"
    and ev: "even (length (filter is_hex_digit ?clean))"
    using fromhex_accepts by blast+
  have "filter is_hex_digit ?clean = filter is_hex_digit mac"
    unfolding str_delete_def filter_filter
    by (rule filter_cong) (auto dest: hex_digit_facts(1,2))
  with ev have "even (length (filter is_hex_digit mac))" by simp
  moreover have "is_hex_digit c \<or> c = 58 \<or> c = 45 \<or> Py_ISSPACE c" if "c \<in> set mac" for c
  proof (cases "c = 58 \<or> c = 45")
    case True
    then show ?thesis by blast
  next
    case False
    with that have "c \<in> set ?clean" by (simp add: str_delete_def)
    with ok show ?thesis by blast
  qed
  ultimately show ?thesis by blast
qed

lemma normalize_mac_error: "normalize_mac mac = Inl e \<Longrightarrow> e = ValueError"
  unfolding normalize_mac_def by (rule fromhex_error)

text \<open>
  C2, as the specification states it, does not hold: a MAC address written with dashes
  is not in canonical form, yet the builder accepts it, builds the payload and the
  packet is sent.
\<close>

theorem dash_separated_mac_counterexample:
  "\<not> mac_format (py ''AA-BB-CC-DD-EE-FF'')
   \<and> build_packet (py ''AA-BB-CC-DD-EE-FF'') = Inr packet0
   \<and> send_magic_packet (sendto_ok env0) (py ''AA-BB-CC-DD-EE-FF'') (py ''10.0.1.255'') 9 [] =
       (Inr (), [wake_datagram packet0 (py ''10.0.1.255'')])"
proof -
  have b: "build_packet (py ''AA-BB-CC-DD-EE-FF'') = Inr packet0"
    by (simp add: packet0_def build_packet_def normalize_mac_def py_def str_delete_def
        Py_ISSPACE_def PyLong_DigitValue_def hex_byte_def)
  have n: "\<not> mac_format (py ''AA-BB-CC-DD-EE-FF'')"
    by (simp add: mac_format_def py_def upt_17)
  have s: "send_magic_packet (sendto_ok env0) (py ''AA-BB-CC-DD-EE-FF'') (py ''10.0.1.255'') 9 [] =
       (Inr (), [wake_datagram packet0 (py ''10.0.1.255'')])"
    unfolding send_magic_packet_built[OF b] by (simp add: env0_def py_def)
  from n b s show ?thesis by blast
qed

text \<open>
  C2, amended: for every MAC string that contains a character other than a hexadecimal
  digit, a colon, a dash or ASCII whitespace, or that contains an odd number of
  hexadecimal digits, the builder fails with \<open>ValueError\<close> before any socket is used:
  no payload is built and nothing is sent.
\<close>

theorem malformed_mac_sends_nothing:
  assumes "(\<exists>c\<in>set mac. \<not> is_hex_digit c \<and> c \<noteq> 58 \<and> c \<noteq> 45 \<and> \<not> Py_ISSPACE c)
         \<or> odd (length (filter is_hex_digit mac))"
  shows "normalize_mac mac = Inl ValueError
       \<and> build_packet mac = Inl ValueError
       \<and> send_magic_packet ok mac broadcast port net = (Inl ValueError, net)"
proof -
  have "normalize_mac mac = Inl ValueError"
  proof (cases "normalize_mac mac")
    case (Inl e)
    then show ?thesis using normalize_mac_error by blast
  next
    case (Inr bs)
    from normalize_mac_accepts[OF this] assms show ?thesis by blast
  qed
  then show ?thesis
    by (simp add: build_packet_def send_magic_packet_def)
qed

theorem malformed_mac_sends_nothing_witness:
  "\<not> is_hex_digit 71
   \<and> odd (length (filter is_hex_digit (py ''AA:BB:CC:DD:EE:F'')))
   \<and> build_packet (py ''AA:BB:CC:DD:EE:GG'') = Inl ValueError
   \<and> send_magic_packet (sendto_ok env0) (py ''AA:BB:CC:DD:EE:GG'') (py ''10.0.1.255'') 9 [] =
       (Inl ValueError, [])
   \<and> build_packet (py ''AA:BB:CC:DD:EE:F'') = Inl ValueError
   \<and> send_magic_packet (sendto_ok env0) (py ''AA:BB:CC:DD:EE:F'') (py ''10.0.1.255'') 9 [] =
       (Inl ValueError, [])"
proof -
  have g: "\<not> is_hex_digit 71"
    by (simp add: is_hex_digit_def)
  have h1: "(\<exists>c\<in>set (py ''AA:BB:CC:DD:EE:GG''). \<not> is_hex_digit c \<and> c \<noteq> 58 \<and> c \<noteq> 45 \<and> \<not> Py_ISSPACE c)
         \<or> odd (length (filter is_hex_digit (py ''AA:BB:CC:DD:EE:GG'')))"
    by (simp add: py_def is_hex_digit_def Py_ISSPACE_def)
  have o: "odd (length (filter is_hex_digit (py ''AA:BB:CC:DD:EE:F'')))"
    by (simp add: py_def is_hex_digit_def)
  then have h2: "(\<exists>c\<in>set (py ''AA:BB:CC:DD:EE:F''). \<not> is_hex_digit c \<and> c \<noteq> 58 \<and> c \<noteq> 45 \<and> \<not> Py_ISSPACE c)
         \<or> odd (length (filter is_hex_digit (py ''AA:BB:CC:DD:EE:F'')))"
    by blast
  from g o malformed_mac_sends_nothing[OF h1, of "sendto_ok env0" "py ''10.0.1.255''" 9 "[]"]
    malformed_mac_sends_nothing[OF h2, of "sendto_ok env0" "py ''10.0.1.255''" 9 "[]"]
  show ?thesis by blast
qed


section \<open>Validation of MAC addresses at the public interface\<close>













lemma str_upper_append:
  "str_upper uc (xs @ ys) = str_upper uc xs @ str_upper uc ys"
  by (simp add: str_upper_def)









end
